theory Spec2Isabelle
  imports Main
begin

unbundle bit_operations_syntax

section \<open>Strings, hexadecimal text and HMAC-SHA256\<close>

text \<open>
  A JavaScript string is modelled as a \<^typ>\<open>string\<close>, a list of 8-bit characters: the cookie
  values, header values and paths handled here are ASCII, and for ASCII text the code units
  that \<^verbatim>\<open>split\<close>, \<^verbatim>\<open>startsWith\<close> and \<^verbatim>\<open>length\<close> see are the bytes that the
  hash functions see. Bytes and 32-bit words are integers; every 32-bit addition is reduced
  modulo \<open>2^32\<close> where it is made.
\<close>

definition bytes_of :: "string \<Rightarrow> int list" where
  "bytes_of s = map of_char s"

definition hexdigit :: "int \<Rightarrow> char" where
  "hexdigit n = ''0123456789abcdef'' ! nat n"

text \<open>\<^verbatim>\<open>digest("hex")\<close> and \<^verbatim>\<open>toString("hex")\<close>: two lower-case digits per byte.\<close>

definition hex :: "int list \<Rightarrow> string" where
  "hex bs = concat (map (\<lambda>b. [hexdigit (b div 16 mod 16), hexdigit (b mod 16)]) bs)"

text \<open>
  \<^verbatim>\<open>Buffer.from(s, "hex")\<close> reads two digits at a time, in either letter case, and stops
  without an error at the first pair that is not two hexadecimal digits or at a single
  left-over character; what was read up to there is the buffer.
\<close>

definition unhex :: "char \<Rightarrow> int option" where
  "unhex c =
     (let n = of_char c :: int
      in if 48 \<le> n \<and> n \<le> 57 then Some (n - 48)
         else if 97 \<le> n \<and> n \<le> 102 then Some (n - 87)
         else if 65 \<le> n \<and> n \<le> 70 then Some (n - 55)
         else None)"

fun Buffer_from_hex :: "string \<Rightarrow> int list" where
  "Buffer_from_hex (a # b # rest) =
     (case unhex a of
        None \<Rightarrow> []
      | Some x \<Rightarrow> (case unhex b of None \<Rightarrow> [] | Some y \<Rightarrow> (16 * x + y) # Buffer_from_hex rest))"
| "Buffer_from_hex [a] = []"
| "Buffer_from_hex [] = []"

text \<open>
  \<^verbatim>\<open>crypto.timingSafeEqual(a, b)\<close> throws a \<^verbatim>\<open>RangeError\<close> when the two buffers differ in
  length (the value \<open>None\<close>) and otherwise tells whether they hold the same bytes.
\<close>

definition timingSafeEqual :: "int list \<Rightarrow> int list \<Rightarrow> bool option" where
  "timingSafeEqual a b = (if length a \<noteq> length b then None else Some (a = b))"

text \<open>\<^verbatim>\<open>s.split(sep)\<close> for a one-character separator: the pieces between the separators.\<close>

fun split_on :: "char \<Rightarrow> string \<Rightarrow> string list" where
  "split_on sep [] = [[]]"
| "split_on sep (c # cs) =
     (if c = sep then [] # split_on sep cs
      else (case split_on sep cs of p # ps \<Rightarrow> (c # p) # ps | [] \<Rightarrow> [[c]]))"

subsection \<open>SHA-256 (FIPS 180-4) and HMAC (RFC 2104)\<close>

text \<open>
  The routes call Node's \<^verbatim>\<open>createHmac("sha256", key).update(data).digest("hex")\<close> and the
  middleware calls Web Crypto's HMAC with SHA-256 through its own \<^verbatim>\<open>hmacSHA256\<close>; both are
  the function of the two standards, written out here so that tokens can be computed.
\<close>

definition w32 :: "int \<Rightarrow> int" where
  "w32 x = x mod 4294967296"

definition rotr :: "nat \<Rightarrow> int \<Rightarrow> int" where
  "rotr n x = x div 2 ^ n + (x mod 2 ^ n) * 2 ^ (32 - n)"

definition shr :: "nat \<Rightarrow> int \<Rightarrow> int" where
  "shr n x = x div 2 ^ n"

definition Ch :: "int \<Rightarrow> int \<Rightarrow> int \<Rightarrow> int" where
  "Ch x y z = (x AND y) XOR ((4294967295 - x) AND z)"

definition Maj :: "int \<Rightarrow> int \<Rightarrow> int \<Rightarrow> int" where
  "Maj x y z = (x AND y) XOR (x AND z) XOR (y AND z)"

definition Sigma0 :: "int \<Rightarrow> int" where
  "Sigma0 x = rotr 2 x XOR rotr 13 x XOR rotr 22 x"

definition Sigma1 :: "int \<Rightarrow> int" where
  "Sigma1 x = rotr 6 x XOR rotr 11 x XOR rotr 25 x"

definition sigma0 :: "int \<Rightarrow> int" where
  "sigma0 x = rotr 7 x XOR rotr 18 x XOR shr 3 x"

definition sigma1 :: "int \<Rightarrow> int" where
  "sigma1 x = rotr 17 x XOR rotr 19 x XOR shr 10 x"

text \<open>The sixty-four round constants and the initial hash value, in decimal.\<close>

definition K256 :: "int list" where
  "K256 = [
   1116352408, 1899447441, 3049323471, 3921009573, 961987163, 1508970993,
   2453635748, 2870763221, 3624381080, 310598401, 607225278, 1426881987,
   1925078388, 2162078206, 2614888103, 3248222580, 3835390401, 4022224774,
   264347078, 604807628, 770255983, 1249150122, 1555081692, 1996064986,
   2554220882, 2821834349, 2952996808, 3210313671, 3336571891, 3584528711,
   113926993, 338241895, 666307205, 773529912, 1294757372, 1396182291,
   1695183700, 1986661051, 2177026350, 2456956037, 2730485921, 2820302411,
   3259730800, 3345764771, 3516065817, 3600352804, 4094571909, 275423344,
   430227734, 506948616, 659060556, 883997877, 958139571, 1322822218,
   1537002063, 1747873779, 1955562222, 2024104815, 2227730452, 2361852424,
   2428436474, 2756734187, 3204031479, 3329325298]"

type_synonym sha_state = "int \<times> int \<times> int \<times> int \<times> int \<times> int \<times> int \<times> int"

definition H256 :: sha_state where
  "H256 = (1779033703, 3144134277, 1013904242, 2773480762,
           1359893119, 2600822924, 528734635, 1541459225)"

text \<open>
  The message schedule is kept as a window of the sixteen most recent words: the head is the
  word of the current round, and each round appends the word sixteen places further on.
\<close>

fun next_w :: "int list \<Rightarrow> int list" where
  "next_w [w0, w1, w2, w3, w4, w5, w6, w7, w8, w9, w10, w11, w12, w13, w14, w15] =
     [w1, w2, w3, w4, w5, w6, w7, w8, w9, w10, w11, w12, w13, w14, w15,
      w32 (sigma1 w14 + w9 + sigma0 w1 + w0)]"
| "next_w ws = ws"

fun round_step :: "int \<Rightarrow> int \<Rightarrow> sha_state \<Rightarrow> sha_state" where
  "round_step k w (a, b, c, d, e, f, g, h) =
     (let t1 = h + Sigma1 e + Ch e f g + k + w;
          t2 = Sigma0 a + Maj a b c
      in (w32 (t1 + t2), a, b, c, w32 (d + t1), e, f, g))"

fun rounds :: "int list \<Rightarrow> int list \<Rightarrow> sha_state \<Rightarrow> sha_state" where
  "rounds [] ws s = s"
| "rounds (k # ks) ws s =
     (case ws of [] \<Rightarrow> s | w # _ \<Rightarrow> rounds ks (next_w ws) (round_step k w s))"

fun add_state :: "sha_state \<Rightarrow> sha_state \<Rightarrow> sha_state" where
  "add_state (a, b, c, d, e, f, g, h) (a', b', c', d', e', f', g', h') =
     (w32 (a + a'), w32 (b + b'), w32 (c + c'), w32 (d + d'),
      w32 (e + e'), w32 (f + f'), w32 (g + g'), w32 (h + h'))"

definition compress :: "sha_state \<Rightarrow> int list \<Rightarrow> sha_state" where
  "compress s ws = add_state s (rounds K256 ws s)"

fun be32 :: "int list \<Rightarrow> int list" where
  "be32 (b0 # b1 # b2 # b3 # bs) = (((b0 * 256 + b1) * 256 + b2) * 256 + b3) # be32 bs"
| "be32 bs = []"

fun blocks :: "sha_state \<Rightarrow> int list \<Rightarrow> sha_state" where
  "blocks s (w0 # w1 # w2 # w3 # w4 # w5 # w6 # w7 # w8 # w9 # w10 # w11 # w12 # w13 # w14 # w15 # ws) =
     blocks (compress s [w0, w1, w2, w3, w4, w5, w6, w7, w8, w9, w10, w11, w12, w13, w14, w15]) ws"
| "blocks s ws = s"

definition word_bytes :: "int \<Rightarrow> int list" where
  "word_bytes x = [x div 16777216 mod 256, x div 65536 mod 256, x div 256 mod 256, x mod 256]"

definition pad :: "int list \<Rightarrow> int list" where
  "pad m =
     m @ [128] @ replicate ((119 - length m mod 64) mod 64) 0 @
     word_bytes (8 * int (length m) div 4294967296) @ word_bytes (8 * int (length m))"

fun state_bytes :: "sha_state \<Rightarrow> int list" where
  "state_bytes (a, b, c, d, e, f, g, h) =
     word_bytes a @ word_bytes b @ word_bytes c @ word_bytes d @
     word_bytes e @ word_bytes f @ word_bytes g @ word_bytes h"

definition sha256 :: "int list \<Rightarrow> int list" where
  "sha256 m = state_bytes (blocks H256 (be32 (pad m)))"

definition hmac :: "int list \<Rightarrow> int list \<Rightarrow> int list" where
  "hmac key msg =
     (let k0 = (if length key > 64 then sha256 key else key);
          k = k0 @ replicate (64 - length k0) 0
      in sha256 (map (\<lambda>b. b XOR 92) k @ sha256 (map (\<lambda>b. b XOR 54) k @ msg)))"

definition hmacSHA256 :: "string \<Rightarrow> string \<Rightarrow> string" where
  "hmacSHA256 key data = hex (hmac (bytes_of key) (bytes_of data))"

section \<open>Session tokens\<close>

text \<open>
  An environment variable is absent (\<open>None\<close>) or holds a string. JavaScript's
  \<^verbatim>\<open>x || d\<close> and \<^verbatim>\<open>!x\<close> treat the absent and the empty string alike.
\<close>

definition falsy :: "string option \<Rightarrow> bool" where
  "falsy v = (case v of None \<Rightarrow> True | Some s \<Rightarrow> s = [])"

definition or_else :: "string option \<Rightarrow> string \<Rightarrow> string" where
  "or_else v d = (case v of None \<Rightarrow> d | Some s \<Rightarrow> if s = [] then d else s)"

text \<open>The variables of \<^verbatim>\<open>process.env\<close> that the program reads.\<close>

record environment =
  APP_PASSWORD :: "string option"
  OPENAI_API_KEY :: "string option"
  BUNNY_STORAGE_ZONE :: "string option"
  BUNNY_ACCESS_KEY :: "string option"
  BUNNY_CDN_HOST :: "string option"

subsection \<open>The login route (\<^verbatim>\<open>src/unnamed/part_003\<close>)\<close>

definition getSessionSecret :: "environment \<Rightarrow> string" where
  "getSessionSecret env = hmacSHA256 (or_else (APP_PASSWORD env) ''fallback'') ''yva-session-secret''"

text \<open>\<open>rnd\<close> stands for the bytes that \<^verbatim>\<open>randomBytes(32)\<close> returns.\<close>

definition generateSessionToken :: "environment \<Rightarrow> int list \<Rightarrow> string" where
  "generateSessionToken env rnd =
     (let nonce = hex rnd;
          signature = hmacSHA256 (getSessionSecret env) nonce
      in nonce @ ''.'' @ signature)"

definition verifySessionToken :: "environment \<Rightarrow> string \<Rightarrow> bool" where
  "verifySessionToken env token =
     (case split_on CHR ''.'' token of
        [nonce, signature] \<Rightarrow>
          if nonce = [] \<or> signature = [] then False
          else (let expected = hmacSHA256 (getSessionSecret env) nonce
                in case timingSafeEqual (Buffer_from_hex signature) (Buffer_from_hex expected) of
                     None \<Rightarrow> False
                   | Some same \<Rightarrow> same)
      | _ \<Rightarrow> False)"

subsection \<open>The middleware (\<^verbatim>\<open>src/middleware.ts\<close>)\<close>

definition mw_verifySessionToken :: "environment \<Rightarrow> string \<Rightarrow> bool" where
  "mw_verifySessionToken env token =
     (case APP_PASSWORD env of
        None \<Rightarrow> False
      | Some password \<Rightarrow>
          if password = [] then False
          else (case split_on CHR ''.'' token of
                  [nonce, signature] \<Rightarrow>
                    if nonce = [] \<or> signature = [] then False
                    else (let secret = hmacSHA256 password ''yva-session-secret'';
                              expected = hmacSHA256 secret nonce
                          in signature = expected)
                | _ \<Rightarrow> False))"

subsection \<open>The analysis and thumbnail routes\<close>

text \<open>
  \<^verbatim>\<open>src/app/api/analyze/route.ts\<close>, the thumbnail route and the style route each carry
  the same copy of this function.
\<close>

definition api_verifySessionToken :: "environment \<Rightarrow> string \<Rightarrow> bool" where
  "api_verifySessionToken env token =
     (let secret = hmacSHA256 (or_else (APP_PASSWORD env) ''fallback'') ''yva-session-secret''
      in case split_on CHR ''.'' token of
           [nonce, signature] \<Rightarrow>
             if nonce = [] \<or> signature = [] then False
             else (let expected = hmacSHA256 secret nonce in signature = expected)
         | _ \<Rightarrow> False)"

section \<open>Requests and responses\<close>

text \<open>
  \<^verbatim>\<open>NextResponse.json(body, { status })\<close>: the status (200 when none is given) and the
  JSON body, which is either \<^verbatim>\<open>{ success: false, error }\<close> or \<^verbatim>\<open>{ success: true, ... }\<close>
  with its further fields.
\<close>

datatype payload = Err string | Ok "(string \<times> string) list"

record response =
  status :: nat
  body :: payload

definition json_error :: "nat \<Rightarrow> string \<Rightarrow> response" where
  "json_error code msg = \<lparr>status = code, body = Err msg\<rparr>"

definition json_ok :: "(string \<times> string) list \<Rightarrow> response" where
  "json_ok fs = \<lparr>status = 200, body = Ok fs\<rparr>"

text \<open>A value read from a parsed JSON request body, \<open>JUndefined\<close> for a field that is absent.\<close>

datatype jsval = JUndefined | JNull | JBool bool | JNum int | JStr string | JObject

fun truthy :: "jsval \<Rightarrow> bool" where
  "truthy (JStr s) = (s \<noteq> [])"
| "truthy (JNum n) = (n \<noteq> 0)"
| "truthy (JBool b) = b"
| "truthy JObject = True"
| "truthy JUndefined = False"
| "truthy JNull = False"

text \<open>What a \<^verbatim>\<open>catch\<close> block can receive.\<close>

datatype exn = APIError nat string | SyntaxError | OtherError string

definition SESSION_COOKIE_NAME :: string where
  "SESSION_COOKIE_NAME = ''yva_session''"

definition startsWith :: "string \<Rightarrow> string \<Rightarrow> bool" where
  "startsWith s p = (take (length p) s = p)"

fun js_includes :: "string \<Rightarrow> string \<Rightarrow> bool" where
  "js_includes [] sub = (sub = [])"
| "js_includes (c # cs) sub = (startsWith (c # cs) sub \<or> js_includes cs sub)"

text \<open>\<^verbatim>\<open>trim()\<close> on ASCII text: white space and line terminators are removed at both ends.\<close>

definition js_space :: "char \<Rightarrow> bool" where
  "js_space c = (of_char c \<in> {9, 10, 11, 12, 13, 32 :: nat})"

definition trim :: "string \<Rightarrow> string" where
  "trim s = rev (dropWhile js_space (rev (dropWhile js_space s)))"

record headers =
  x_real_ip :: "string option"
  x_forwarded_for :: "string option"

text \<open>
  \<^verbatim>\<open>request.headers.get("x-real-ip") || request.headers.get("x-forwarded-for")?.split(",")[0]?.trim() || "unknown"\<close>
\<close>

definition getClientIP :: "headers \<Rightarrow> string" where
  "getClientIP h =
     (if \<not> falsy (x_real_ip h) then or_else (x_real_ip h) []
      else (case x_forwarded_for h of
              None \<Rightarrow> ''unknown''
            | Some f \<Rightarrow>
                (case split_on CHR '','' f of
                   [] \<Rightarrow> ''unknown''
                 | first # _ \<Rightarrow> if trim first = [] then ''unknown'' else trim first)))"

section \<open>Login attempts and the login handler (\<^verbatim>\<open>src/unnamed/part_003\<close>)\<close>

text \<open>
  The module-level \<^verbatim>\<open>attempts\<close> map holds \<^verbatim>\<open>{ count, firstAttempt }\<close> per client address.
  The field \<^verbatim>\<open>count\<close> is called \<open>attemptCount\<close> here, apart from the \<open>count\<close> of the
  analysis route's records.
\<close>

record attempt_record =
  attemptCount :: nat
  firstAttempt :: int

type_synonym attempts_map = "string \<rightharpoonup> attempt_record"

definition RATE_LIMIT_WINDOW :: int where
  "RATE_LIMIT_WINDOW = 15 * 60 * 1000"

definition RATE_LIMIT_MAX :: nat where
  "RATE_LIMIT_MAX = 5"

definition SESSION_MAX_AGE :: nat where
  "SESSION_MAX_AGE = 60 * 60 * 24 * 7"

definition getAttemptCount :: "int \<Rightarrow> attempts_map \<Rightarrow> string \<Rightarrow> nat" where
  "getAttemptCount now attempts ip =
     (case attempts ip of
        None \<Rightarrow> 0
      | Some record \<Rightarrow> if now - firstAttempt record > RATE_LIMIT_WINDOW then 0 else attemptCount record)"

definition recordAttempt :: "int \<Rightarrow> attempts_map \<Rightarrow> string \<Rightarrow> attempts_map" where
  "recordAttempt now attempts ip =
     (case attempts ip of
        None \<Rightarrow> attempts(ip \<mapsto> \<lparr>attemptCount = 1, firstAttempt = now\<rparr>)
      | Some record \<Rightarrow>
          if now - firstAttempt record > RATE_LIMIT_WINDOW
          then attempts(ip \<mapsto> \<lparr>attemptCount = 1, firstAttempt = now\<rparr>)
          else attempts(ip \<mapsto> record\<lparr>attemptCount := attemptCount record + 1\<rparr>))"

text \<open>
  \<^verbatim>\<open>Math.min(1000 * Math.pow(2, count - 1), 8000)\<close>, in milliseconds. The power is taken
  exactly here; a floating-point power that has grown to infinity gives the same minimum.
\<close>

definition getDelay :: "int \<Rightarrow> attempts_map \<Rightarrow> string \<Rightarrow> int" where
  "getDelay now attempts ip =
     (let count = getAttemptCount now attempts ip
      in if count \<le> 1 then 0 else min (1000 * 2 ^ (count - 1)) 8000)"

definition padEnd :: "nat \<Rightarrow> char \<Rightarrow> string \<Rightarrow> string" where
  "padEnd n c s = s @ replicate (n - length s) c"

definition verifyPassword :: "string \<Rightarrow> string \<Rightarrow> bool" where
  "verifyPassword input expected =
     (let inputBuf = bytes_of (padEnd 256 (CHR 0x00) input);
          expectedBuf = bytes_of (padEnd 256 (CHR 0x00) expected)
      in length inputBuf = length expectedBuf \<and> timingSafeEqual inputBuf expectedBuf = Some True)"

text \<open>
  The request body after \<^verbatim>\<open>await request.json()\<close> and \<^verbatim>\<open>const { password } = body\<close>:
  either of the two throws (a body that is not JSON, or the JSON \<^verbatim>\<open>null\<close>), or
  \<^verbatim>\<open>password\<close> is bound to a string or to something that is not a string.
\<close>

datatype password_field = PwString string | PwOther

datatype login_body = BodyThrows | Body password_field

record login_request =
  login_headers :: headers
  login_body :: login_body

text \<open>
  The handler reads \<^verbatim>\<open>Date.now()\<close> up to four times: in the first
  \<^verbatim>\<open>getAttemptCount\<close>, in the lock-out test, in \<^verbatim>\<open>recordAttempt\<close> and in
  \<^verbatim>\<open>getDelay\<close>.
\<close>

record login_clock =
  t_count :: int
  t_lock :: int
  t_record :: int
  t_delay :: int

text \<open>
  What a call of the handler leaves behind: the response, the \<^verbatim>\<open>attempts\<close> map, the
  session cookie it has set if any (name and value), and the time it has slept.
\<close>

record login_result =
  login_response :: response
  attempts_after :: attempts_map
  cookie_set :: "(string \<times> string) option"
  slept :: int

definition auth_POST ::
  "environment \<Rightarrow> login_request \<Rightarrow> login_clock \<Rightarrow> int list \<Rightarrow> attempts_map \<Rightarrow> login_result" where
  "auth_POST env request clock rnd attempts =
     (if falsy (APP_PASSWORD env) then
        \<lparr>login_response = json_error 500 ''Authentication not configured'',
         attempts_after = attempts, cookie_set = None, slept = 0\<rparr>
      else
        let ip = getClientIP (login_headers request) in
        if getAttemptCount (t_count clock) attempts ip \<ge> RATE_LIMIT_MAX \<and>
           (case attempts ip of
              None \<Rightarrow> False
            | Some record \<Rightarrow> t_lock clock - firstAttempt record < RATE_LIMIT_WINDOW)
        then
          \<lparr>login_response = json_error 429 ''Too many attempts. Try again later.'',
           attempts_after = attempts, cookie_set = None, slept = 4000\<rparr>
        else
          (case login_body request of
             BodyThrows \<Rightarrow>
               \<lparr>login_response = json_error 400 ''Invalid request'',
                attempts_after = attempts, cookie_set = None, slept = 0\<rparr>
           | Body PwOther \<Rightarrow>
               \<lparr>login_response = json_error 401 ''Invalid credentials'',
                attempts_after = attempts, cookie_set = None, slept = 0\<rparr>
           | Body (PwString password) \<Rightarrow>
               if length password = 0 \<or> length password > 256 then
                 \<lparr>login_response = json_error 401 ''Invalid credentials'',
                  attempts_after = attempts, cookie_set = None, slept = 0\<rparr>
               else if verifyPassword password (or_else (APP_PASSWORD env) []) then
                 \<lparr>login_response = json_ok [],
                  attempts_after = attempts(ip := None),
                  cookie_set = Some (SESSION_COOKIE_NAME, generateSessionToken env rnd),
                  slept = 0\<rparr>
               else
                 (let attempts' = recordAttempt (t_record clock) attempts ip;
                      delay = getDelay (t_delay clock) attempts' ip
                  in \<lparr>login_response = json_error 401 ''Invalid credentials'',
                      attempts_after = attempts', cookie_set = None,
                      slept = (if delay > 0 then delay else 0)\<rparr>)))"

section \<open>Rate limiter of the transcript-analysis route\<close>

text \<open>
  \<^verbatim>\<open>src/app/api/analyze/route.ts\<close> keeps a module-level
  \<^verbatim>\<open>Map<string, { count: number; windowStart: number }>\<close>. The map is modelled as a
  partial function from client keys to records, \<^verbatim>\<open>Date.now()\<close> as an integer number of
  milliseconds handed to the function, and the mutation of the map as a returned map.
\<close>

record rate_record =
  count :: nat
  windowStart :: int

type_synonym rate_map = "string \<rightharpoonup> rate_record"

definition ANALYZE_RATE_WINDOW :: int where
  "ANALYZE_RATE_WINDOW = 60 * 1000"

definition ANALYZE_RATE_MAX :: nat where
  "ANALYZE_RATE_MAX = 10"

definition checkAnalyzeRateLimit :: "int \<Rightarrow> rate_map \<Rightarrow> string \<Rightarrow> bool \<times> rate_map" where
  "checkAnalyzeRateLimit now analyzeAttempts ip =
     (case analyzeAttempts ip of
        None \<Rightarrow> (True, analyzeAttempts(ip \<mapsto> \<lparr>count = 1, windowStart = now\<rparr>))
      | Some record \<Rightarrow>
          if now - windowStart record > ANALYZE_RATE_WINDOW
          then (True, analyzeAttempts(ip \<mapsto> \<lparr>count = 1, windowStart = now\<rparr>))
          else if count record \<ge> ANALYZE_RATE_MAX then (False, analyzeAttempts)
          else (True, analyzeAttempts(ip \<mapsto> record\<lparr>count := count record + 1\<rparr>)))"

text \<open>
  A run of calls for one key, one call per clock reading, threading the map through and
  collecting the answers in order.
\<close>

fun analyze_calls :: "int list \<Rightarrow> rate_map \<Rightarrow> string \<Rightarrow> bool list \<times> rate_map" where
  "analyze_calls [] m ip = ([], m)"
| "analyze_calls (now # ts) m ip =
     (let (ok, m') = checkAnalyzeRateLimit now m ip;
          (oks, m'') = analyze_calls ts m' ip
      in (ok # oks, m''))"

section \<open>The middleware and the login page\<close>

definition publicRoutes :: "string list" where
  "publicRoutes = [''/login'', ''/api/auth'']"

datatype mw_response = Next | Redirect string "(string \<times> string) list"

text \<open>
  \<^verbatim>\<open>middleware\<close> of \<^verbatim>\<open>src/middleware.ts\<close>, from the request's path and the value of its
  session cookie (\<open>None\<close> without the cookie). A redirect is given by the path of its URL
  and its query parameters.
\<close>

definition bypassed :: "string \<Rightarrow> bool" where
  "bypassed pathname =
     ((\<exists>route \<in> set publicRoutes. startsWith pathname route) \<or>
      startsWith pathname ''/_next'' \<or> startsWith pathname ''/favicon'' \<or>
      js_includes pathname ''.'')"

definition middleware :: "environment \<Rightarrow> string \<Rightarrow> string option \<Rightarrow> mw_response" where
  "middleware env pathname session =
     (if \<exists>route \<in> set publicRoutes. startsWith pathname route then Next
      else if startsWith pathname ''/_next'' \<or> startsWith pathname ''/favicon'' \<or>
              js_includes pathname ''.'' then Next
      else if falsy session \<or> \<not> mw_verifySessionToken env (or_else session []) then
        Redirect ''/login'' [(''from'', pathname)]
      else Next)"

text \<open>
  \<^verbatim>\<open>LoginForm\<close> of \<^verbatim>\<open>src/app/login/page.tsx\<close> computes the target it navigates to after a
  successful login from the \<^verbatim>\<open>from\<close> query parameter (\<open>None\<close> when it is absent):
  \<^verbatim>\<open>rawFrom.startsWith("/") && !rawFrom.startsWith("//") ? rawFrom : "/"\<close>.
\<close>

definition LoginForm_from :: "string option \<Rightarrow> string" where
  "LoginForm_from param =
     (let rawFrom = or_else param ''/''
      in if startsWith rawFrom ''/'' \<and> \<not> startsWith rawFrom ''//'' then rawFrom else ''/'')"

text \<open>
  The specification asks for a return target that is a same-origin relative path. A browser
  resolves the target against the address of the login page, by the rules of the URL
  standard: a target stays on the page's origin when it begins with a single \<^verbatim>\<open>/\<close> that
  starts a path. A \<^verbatim>\<open>/\<close> or a backslash right after it starts a host instead, since in an
  \<^verbatim>\<open>http\<close> or \<^verbatim>\<open>https\<close> address the backslash is read as a slash.
\<close>

definition spec_same_origin_relative_path :: "string \<Rightarrow> bool" where
  "spec_same_origin_relative_path target =
     (case target of
        [] \<Rightarrow> False
      | c # rest \<Rightarrow>
          c = CHR ''/'' \<and>
          (case rest of [] \<Rightarrow> True | d # _ \<Rightarrow> d \<noteq> CHR ''/'' \<and> d \<noteq> CHR 0x5C))"

section \<open>Channels\<close>

text \<open>
  \<^verbatim>\<open>getChannel(id)\<close> is \<^verbatim>\<open>CHANNELS[id]\<close> on an object literal with the keys
  \<^verbatim>\<open>techtony\<close> and \<^verbatim>\<open>huntermason\<close>. The lookup also finds the members that every object
  inherits from \<^verbatim>\<open>Object.prototype\<close>; they are objects without the fields of a channel.
\<close>

datatype channel_ref = Configured string | Inherited

definition prototype_members :: "string list" where
  "prototype_members =
     [''constructor'', ''__defineGetter__'', ''__defineSetter__'', ''hasOwnProperty'',
      ''__lookupGetter__'', ''__lookupSetter__'', ''isPrototypeOf'', ''propertyIsEnumerable'',
      ''toString'', ''valueOf'', ''__proto__'', ''toLocaleString'']"

definition getChannel :: "string \<Rightarrow> channel_ref option" where
  "getChannel channel_id =
     (if channel_id = ''techtony'' \<or> channel_id = ''huntermason'' then Some (Configured channel_id)
      else if channel_id \<in> set prototype_members then Some Inherited
      else None)"

section \<open>The transcript-analysis handler (\<^verbatim>\<open>src/app/api/analyze/route.ts\<close>)\<close>

definition MAX_TRANSCRIPT_LENGTH :: nat where
  "MAX_TRANSCRIPT_LENGTH = 100000"

fun sanitizeError :: "exn \<Rightarrow> string" where
  "sanitizeError (APIError code msg) =
     (if code = 401 then ''AI service authentication failed. Contact admin.''
      else if code = 429 then ''AI service rate limit exceeded. Try again in a minute.''
      else if code = 500 then ''AI service temporarily unavailable. Try again.''
      else ''AI service error. Try again.'')"
| "sanitizeError SyntaxError = ''Failed to parse AI response. Try again.''"
| "sanitizeError (OtherError msg) = ''Analysis failed. Try again.''"

text \<open>
  The fields that the handler takes out of the parsed body. Reading the body throws a
  \<^verbatim>\<open>SyntaxError\<close> when it is not JSON, and destructuring the JSON \<^verbatim>\<open>null\<close> throws a
  \<^verbatim>\<open>TypeError\<close>; the request then carries what is thrown (\<open>Inl\<close>).
\<close>

record analyze_body =
  transcript :: jsval
  channel :: jsval
  visual_context :: jsval
  video_duration :: jsval

record analyze_request =
  analyze_headers :: headers
  analyze_session :: "string option"
  analyze_body :: "exn + analyze_body"

text \<open>
  The language model is outside the program. Its part in one request is given by what the
  call does: it throws, or it returns the text of the first choice (\<open>None\<close> without one).
  \<^verbatim>\<open>JSON.parse\<close> of that text throws, gives \<^verbatim>\<open>null\<close>, or gives a value of which the
  handler only reads which of the required keys hold something truthy.
\<close>

datatype parsed_json = ParseThrows | ParsedNull | Parsed "string list"

record analyze_world =
  completion :: "exn + string option"
  parsed :: parsed_json

definition required :: "string list" where
  "required = [''titles'', ''description'', ''thumbnail_concepts'', ''tags'', ''timeline'']"

fun join :: "string \<Rightarrow> string list \<Rightarrow> string" where
  "join sep [] = []"
| "join sep [x] = x"
| "join sep (x # y # ys) = x @ sep @ join sep (y # ys)"

definition caught :: "exn \<Rightarrow> response" where
  "caught e = json_error 500 (sanitizeError e)"

definition analyze_try :: "analyze_request \<Rightarrow> analyze_world \<Rightarrow> response" where
  "analyze_try request world =
     (case analyze_body request of
        Inl e \<Rightarrow> caught e
      | Inr b \<Rightarrow>
          (case transcript b of
             JStr text \<Rightarrow>
               if text = [] \<or> length (trim text) = 0 then json_error 400 ''Transcript is required''
               else if length text > MAX_TRANSCRIPT_LENGTH then
                 json_error 400 ''Transcript exceeds 100,000 character limit''
               else
                 (case channel b of
                    JStr ch \<Rightarrow>
                      if ch = [] then json_error 400 ''Channel is required''
                      else
                        (case getChannel ch of
                           None \<Rightarrow> json_error 400 ''Unknown channel''
                         | Some channelConfig \<Rightarrow>
                             if truthy (visual_context b) \<and>
                                (case visual_context b of JStr _ \<Rightarrow> False | _ \<Rightarrow> True) then
                               json_error 400 ''Invalid visual context''
                             else if truthy (video_duration b) \<and>
                                (case video_duration b of JStr _ \<Rightarrow> False | _ \<Rightarrow> True) then
                               json_error 400 ''Invalid video duration''
                             else
                               (case channelConfig of
                                  Inherited \<Rightarrow> caught (OtherError ''titlePatterns'')
                                | Configured _ \<Rightarrow>
                                    (case completion world of
                                       Inl e \<Rightarrow> caught e
                                     | Inr content \<Rightarrow>
                                         if falsy content then json_error 500 ''No response from AI''
                                         else
                                           (case parsed world of
                                              ParseThrows \<Rightarrow> caught SyntaxError
                                            | ParsedNull \<Rightarrow> caught (OtherError ''null'')
                                            | Parsed present \<Rightarrow>
                                                (let missing = filter (\<lambda>k. k \<notin> set present) required
                                                 in if length missing > 0 then
                                                      json_error 500
                                                        (''AI response incomplete. Missing: '' @ join '', '' missing)
                                                    else json_ok [(''channel'', ch),
                                                                  (''data'', or_else content [])])))))
                  | _ \<Rightarrow> json_error 400 ''Channel is required'')
           | _ \<Rightarrow> json_error 400 ''Transcript is required''))"

definition analyze_POST ::
  "environment \<Rightarrow> analyze_request \<Rightarrow> int \<Rightarrow> analyze_world \<Rightarrow> rate_map \<Rightarrow> response \<times> rate_map" where
  "analyze_POST env request now world analyzeAttempts =
     (if falsy (analyze_session request) \<or>
         \<not> api_verifySessionToken env (or_else (analyze_session request) []) then
        (json_error 401 ''Not authenticated'', analyzeAttempts)
      else if falsy (OPENAI_API_KEY env) then
        (json_error 500 ''AI service not configured'', analyzeAttempts)
      else
        (let ip = getClientIP (analyze_headers request);
             (allowed, analyzeAttempts') = checkAnalyzeRateLimit now analyzeAttempts ip
         in if \<not> allowed then
              (json_error 429 ''Too many requests. Wait a minute and try again.'', analyzeAttempts')
            else (analyze_try request world, analyzeAttempts')))"

section \<open>The thumbnail handler\<close>

text \<open>
  The thumbnail route, whose text follows the prompt builders in \<^verbatim>\<open>src/lib/prompts.ts\<close>,
  has its own \<^verbatim>\<open>rateLimiter\<close> map and its own copy of the limiter.
\<close>

definition RATE_WINDOW :: int where
  "RATE_WINDOW = 60 * 1000"

definition RATE_MAX :: nat where
  "RATE_MAX = 10"

definition checkRateLimit :: "int \<Rightarrow> rate_map \<Rightarrow> string \<Rightarrow> bool \<times> rate_map" where
  "checkRateLimit now rateLimiter ip =
     (case rateLimiter ip of
        None \<Rightarrow> (True, rateLimiter(ip \<mapsto> \<lparr>count = 1, windowStart = now\<rparr>))
      | Some record \<Rightarrow>
          if now - windowStart record > RATE_WINDOW
          then (True, rateLimiter(ip \<mapsto> \<lparr>count = 1, windowStart = now\<rparr>))
          else if count record \<ge> RATE_MAX then (False, rateLimiter)
          else (True, rateLimiter(ip \<mapsto> record\<lparr>count := count record + 1\<rparr>)))"

text \<open>
  The services that one request meets, each given by what its call does: throw (\<open>Inl\<close>) or
  return. The prompt crafter returns the text of its first choice, the image generator the
  URL of its first image, the download the bytes of the image (\<open>None\<close> for a response that
  is not \<^verbatim>\<open>ok\<close>), the two image operations their output bytes, and the storage \<^verbatim>\<open>PUT\<close>
  whether its response is \<^verbatim>\<open>ok\<close>, with the status code.
\<close>

record thumbnail_world =
  crafter :: "exn + string option"
  generated :: "exn + string option"
  download :: "exn + int list option"
  resized :: "exn + int list"
  composited :: "exn + int list"
  filename :: string
  storage_put :: "exn + bool \<times> string"

record thumbnail_body =
  concept :: jsval
  text_overlay :: jsval
  emotion :: jsval
  channelId :: jsval
  style_guide :: jsval
  headshot_url :: jsval
  video_title :: jsval

record thumbnail_request =
  thumbnail_headers :: headers
  thumbnail_session :: "string option"
  thumbnail_body :: "exn + thumbnail_body"

definition trimmed :: "string option \<Rightarrow> string option" where
  "trimmed v = map_option trim v"

definition uploadToBunnyCDN :: "environment \<Rightarrow> thumbnail_world \<Rightarrow> int list \<Rightarrow> string \<Rightarrow> exn + string" where
  "uploadToBunnyCDN env world imageBuffer name =
     (let storageZone = trimmed (BUNNY_STORAGE_ZONE env);
          accessKey = trimmed (BUNNY_ACCESS_KEY env);
          cdnHost = trimmed (BUNNY_CDN_HOST env)
      in if falsy storageZone \<or> falsy accessKey \<or> falsy cdnHost then
           Inl (OtherError ''Bunny CDN not configured'')
         else
           (case storage_put world of
              Inl e \<Rightarrow> Inl e
            | Inr (ok, code) \<Rightarrow>
                if \<not> ok then Inl (OtherError (''Bunny CDN upload failed: '' @ code))
                else Inr (''https://'' @ or_else cdnHost [] @ ''/'' @ name)))"

definition thumbnail_caught :: "exn \<Rightarrow> response" where
  "thumbnail_caught e =
     (case e of
        APIError code msg \<Rightarrow>
          if code = 400 \<and> js_includes msg ''content_policy'' then
            json_error 400 ''Image generation was blocked by content policy. Try a different concept.''
          else if code = 429 then
            json_error 429 ''AI rate limit exceeded. Wait a moment and try again.''
          else json_error 500 ''Thumbnail generation failed. Try again.''
      | _ \<Rightarrow> json_error 500 ''Thumbnail generation failed. Try again.'')"

text \<open>
  The text of the prompt is built by \<^verbatim>\<open>buildDallePrompt\<close> of
  \<^verbatim>\<open>lib/thumbnail-prompts\<close>, a fixed template over its five arguments that the handler
  passes on without looking into it; the handler is modelled over any such builder.
\<close>

type_synonym prompt_builder = "string \<Rightarrow> channel_ref \<Rightarrow> string option \<Rightarrow> string \<Rightarrow> bool \<Rightarrow> string"

definition thumbnail_try ::
  "prompt_builder \<Rightarrow> environment \<Rightarrow> thumbnail_request \<Rightarrow> thumbnail_world \<Rightarrow> response" where
  "thumbnail_try buildDallePrompt env request world =
     (case thumbnail_body request of
        Inl e \<Rightarrow> thumbnail_caught e
      | Inr b \<Rightarrow>
          (case concept b of
             JStr cpt \<Rightarrow>
               if cpt = [] then json_error 400 ''Concept is required''
               else
                 (case channelId b of
                    JStr cid \<Rightarrow>
                      if cid = [] then json_error 400 ''Channel is required''
                      else
                        (case getChannel cid of
                           None \<Rightarrow> json_error 400 ''Unknown channel''
                         | Some chan \<Rightarrow>
                             (let overlay = (case text_overlay b of JStr t \<Rightarrow> t | _ \<Rightarrow> []);
                                  includeHeadshot = truthy (headshot_url b);
                                  baseDallePrompt =
                                    buildDallePrompt cpt chan
                                      (case style_guide b of JStr g \<Rightarrow> Some g | _ \<Rightarrow> None)
                                      overlay includeHeadshot
                              in case crafter world of
                                   Inl e \<Rightarrow> thumbnail_caught e
                                 | Inr content \<Rightarrow>
                                     (let optimizedPrompt = or_else content baseDallePrompt
                                      in case generated world of
                                           Inl e \<Rightarrow> thumbnail_caught e
                                         | Inr imageUrl \<Rightarrow>
                                             if falsy imageUrl then json_error 500 ''Image generation failed''
                                             else
                                               (case download world of
                                                  Inl e \<Rightarrow> thumbnail_caught e
                                                | Inr None \<Rightarrow>
                                                    json_error 500 ''Failed to download generated image''
                                                | Inr (Some downloadedBytes) \<Rightarrow>
                                                    (case resized world of
                                                       Inl e \<Rightarrow> thumbnail_caught e
                                                     | Inr resizedBuffer \<Rightarrow>
                                                         (let imageBuffer =
                                                                (case headshot_url b of
                                                                   JStr h \<Rightarrow>
                                                                     if h = [] then resizedBuffer
                                                                     else (case composited world of
                                                                             Inl e \<Rightarrow> resizedBuffer
                                                                           | Inr withHeadshot \<Rightarrow> withHeadshot)
                                                                 | _ \<Rightarrow> resizedBuffer);
                                                              finalUrl =
                                                                (case uploadToBunnyCDN env world imageBuffer
                                                                        (filename world) of
                                                                   Inl e \<Rightarrow> or_else imageUrl []
                                                                 | Inr cdnUrl \<Rightarrow> cdnUrl)
                                                          in json_ok [(''url'', finalUrl),
                                                                      (''prompt_used'', optimizedPrompt),
                                                                      (''text_overlay'', overlay)]))))))
                  | _ \<Rightarrow> json_error 400 ''Channel is required'')
           | _ \<Rightarrow> json_error 400 ''Concept is required''))"

definition thumbnail_POST ::
  "prompt_builder \<Rightarrow> environment \<Rightarrow> thumbnail_request \<Rightarrow> int \<Rightarrow> thumbnail_world \<Rightarrow> rate_map \<Rightarrow>
   response \<times> rate_map" where
  "thumbnail_POST buildDallePrompt env request now world rateLimiter =
     (if falsy (thumbnail_session request) \<or>
         \<not> api_verifySessionToken env (or_else (thumbnail_session request) []) then
        (json_error 401 ''Not authenticated'', rateLimiter)
      else if falsy (OPENAI_API_KEY env) then
        (json_error 500 ''AI service not configured'', rateLimiter)
      else
        (let ip = getClientIP (thumbnail_headers request);
             (allowed, rateLimiter') = checkRateLimit now rateLimiter ip
         in if \<not> allowed then (json_error 429 ''Too many requests. Wait a minute.'', rateLimiter')
            else (thumbnail_try buildDallePrompt env request world, rateLimiter')))"

section \<open>Properties of the token codec\<close>

lemma hexdigit_mem:
  assumes "0 \<le> n" and "n < 16"
  shows "hexdigit n \<in> set ''0123456789abcdef''"
proof -
  have "nat n < length ''0123456789abcdef''" using assms by simp
  then show ?thesis unfolding hexdigit_def by (rule nth_mem)
qed

lemma set_hex: "set (hex bs) \<subseteq> set ''0123456789abcdef''"
proof -
  have "hexdigit (b div 16 mod 16) \<in> set ''0123456789abcdef''" for b
    by (rule hexdigit_mem) simp_all
  moreover have "hexdigit (b mod 16) \<in> set ''0123456789abcdef''" for b
    by (rule hexdigit_mem) simp_all
  ultimately show ?thesis unfolding hex_def by (induction bs) simp_all
qed

lemma length_hex: "length (hex bs) = 2 * length bs"
  unfolding hex_def by (induction bs) simp_all

lemma dot_notin_hex: "CHR ''.'' \<notin> set (hex bs)"
proof
  assume "CHR ''.'' \<in> set (hex bs)"
  then have "CHR ''.'' \<in> set ''0123456789abcdef''" using set_hex by blast
  then show False by simp
qed

lemma length_state_bytes: "length (state_bytes s) = 32"
  by (cases s rule: state_bytes.cases) (simp add: word_bytes_def)

lemma length_sha256: "length (sha256 m) = 32"
  by (simp add: sha256_def length_state_bytes)

lemma length_hmacSHA256: "length (hmacSHA256 key data) = 64"
  by (simp add: hmacSHA256_def hmac_def Let_def length_hex length_sha256)

lemma hmacSHA256_nonempty: "hmacSHA256 key data \<noteq> []"
  using length_hmacSHA256 [of key data] by auto

lemma dot_notin_hmacSHA256: "CHR ''.'' \<notin> set (hmacSHA256 key data)"
  by (simp add: hmacSHA256_def dot_notin_hex)

lemma split_on_none: "sep \<notin> set s \<Longrightarrow> split_on sep s = [s]"
  by (induction s) auto

lemma split_on_once:
  "sep \<notin> set a \<Longrightarrow> sep \<notin> set b \<Longrightarrow> split_on sep (a @ sep # b) = [a, b]"
  by (induction a) (auto simp: split_on_none)

lemma hex_nonempty: "rnd \<noteq> [] \<Longrightarrow> hex rnd \<noteq> []"
  by (cases rnd) (simp_all add: hex_def)

lemma split_generated:
  "split_on CHR ''.'' (generateSessionToken env rnd) =
     [hex rnd, hmacSHA256 (getSessionSecret env) (hex rnd)]"
proof -
  have "split_on CHR ''.'' (hex rnd @ CHR ''.'' # hmacSHA256 (getSessionSecret env) (hex rnd)) =
      [hex rnd, hmacSHA256 (getSessionSecret env) (hex rnd)]"
    by (rule split_on_once) (rule dot_notin_hex, rule dot_notin_hmacSHA256)
  then show ?thesis by (simp add: generateSessionToken_def Let_def)
qed

lemma timingSafeEqual_same: "timingSafeEqual a a = Some True"
  by (simp add: timingSafeEqual_def)

lemma mw_verify_generated:
  assumes "rnd \<noteq> []" and "APP_PASSWORD env = Some password" and "password \<noteq> []"
  shows "mw_verifySessionToken env (generateSessionToken env rnd)"
proof -
  have secret: "getSessionSecret env = hmacSHA256 password ''yva-session-secret''"
    using assms(2,3) by (simp add: getSessionSecret_def or_else_def)
  show ?thesis
    using assms(2,3) hex_nonempty [OF assms(1)]
    by (simp add: mw_verifySessionToken_def split_generated hmacSHA256_nonempty Let_def secret)
qed

lemma api_verify_generated:
  assumes "rnd \<noteq> []"
  shows "api_verifySessionToken env (generateSessionToken env rnd)"
  using hex_nonempty [OF assms]
  by (simp add: api_verifySessionToken_def split_generated hmacSHA256_nonempty Let_def
      getSessionSecret_def)

section \<open>Tokens that differ from the minted one\<close>

text \<open>
  The signature of the nonce of 32 zero bytes under the password \<^verbatim>\<open>pw\<close>, computed once.
\<close>

lemma secret_pw:
  "getSessionSecret \<lparr>APP_PASSWORD = Some ''pw'', OPENAI_API_KEY = None, BUNNY_STORAGE_ZONE = None,
      BUNNY_ACCESS_KEY = None, BUNNY_CDN_HOST = None\<rparr> =
     hmacSHA256 ''pw'' ''yva-session-secret''"
  by (simp add: getSessionSecret_def or_else_def)

lemma signature_pw_zero:
  "hmacSHA256 (hmacSHA256 ''pw'' ''yva-session-secret'')
     ''0000000000000000000000000000000000000000000000000000000000000000'' =
   ''68b54b77e04d0807af99174252c06fb6ca5d8c44ebb9942bf6c49787406eeb8b''"
  by code_simp

lemma hex_zero_nonce:
  "hex (replicate 32 0) = ''0000000000000000000000000000000000000000000000000000000000000000''"
  by code_simp

lemma split_upper:
  "split_on CHR ''.''
     ''0000000000000000000000000000000000000000000000000000000000000000.68B54B77E04D0807AF99174252C06FB6CA5D8C44EBB9942BF6C49787406EEB8B'' =
   [''0000000000000000000000000000000000000000000000000000000000000000'',
    ''68B54B77E04D0807AF99174252C06FB6CA5D8C44EBB9942BF6C49787406EEB8B'']"
  by code_simp

lemma split_one_upper:
  "split_on CHR ''.''
     ''0000000000000000000000000000000000000000000000000000000000000000.68B54b77e04d0807af99174252c06fb6ca5d8c44ebb9942bf6c49787406eeb8b'' =
   [''0000000000000000000000000000000000000000000000000000000000000000'',
    ''68B54b77e04d0807af99174252c06fb6ca5d8c44ebb9942bf6c49787406eeb8b'']"
  by code_simp

lemma decode_upper:
  "Buffer_from_hex ''68B54B77E04D0807AF99174252C06FB6CA5D8C44EBB9942BF6C49787406EEB8B'' =
   Buffer_from_hex ''68b54b77e04d0807af99174252c06fb6ca5d8c44ebb9942bf6c49787406eeb8b''"
  by code_simp

lemma decode_one_upper:
  "Buffer_from_hex ''68B54b77e04d0807af99174252c06fb6ca5d8c44ebb9942bf6c49787406eeb8b'' =
   Buffer_from_hex ''68b54b77e04d0807af99174252c06fb6ca5d8c44ebb9942bf6c49787406eeb8b''"
  by code_simp

text \<open>What does hold of the three verifiers: a token that does not split into exactly two
  parts, or that has an empty part, is refused, and none of them throws.\<close>

lemma verify_needs_two_parts:
  assumes "length (split_on CHR ''.'' token) \<noteq> 2"
  shows "\<not> verifySessionToken env token" and "\<not> mw_verifySessionToken env token"
    and "\<not> api_verifySessionToken env token"
proof -
  have shape: "(case split_on CHR ''.'' token of [nonce, signature] \<Rightarrow> f nonce signature | _ \<Rightarrow> False) = False"
    for f
    using assms by (auto split: list.splits)
  show "\<not> verifySessionToken env token"
    by (simp add: verifySessionToken_def shape)
  show "\<not> mw_verifySessionToken env token"
    by (simp add: mw_verifySessionToken_def shape split: option.splits)
  show "\<not> api_verifySessionToken env token"
    by (simp add: api_verifySessionToken_def shape Let_def)
qed

lemma verify_needs_both_parts:
  assumes "split_on CHR ''.'' token = [nonce, signature]" and "nonce = [] \<or> signature = []"
  shows "\<not> verifySessionToken env token" and "\<not> mw_verifySessionToken env token"
    and "\<not> api_verifySessionToken env token"
  using assms
  by (auto simp: verifySessionToken_def mw_verifySessionToken_def api_verifySessionToken_def
      Let_def split: option.splits)

text \<open>The middleware and the API routes compare the two signatures as strings.\<close>

lemma string_verifiers_need_equal_signature:
  assumes "split_on CHR ''.'' token = [nonce, signature]"
    and "signature \<noteq> hmacSHA256 (hmacSHA256 (or_else (APP_PASSWORD env) ''fallback'') ''yva-session-secret'') nonce"
  shows "\<not> api_verifySessionToken env token" and "\<not> mw_verifySessionToken env token"
  using assms
  by (auto simp: mw_verifySessionToken_def api_verifySessionToken_def Let_def or_else_def
      split: option.splits)

section \<open>Properties of the rate limiter\<close>

lemma check_fresh:
  "m ip = None \<or> (\<exists>r. m ip = Some r \<and> now - windowStart r > ANALYZE_RATE_WINDOW) \<Longrightarrow>
   checkAnalyzeRateLimit now m ip = (True, m(ip \<mapsto> \<lparr>count = 1, windowStart = now\<rparr>))"
  by (auto simp: checkAnalyzeRateLimit_def split: option.splits)

lemma check_full:
  "m ip = Some r \<Longrightarrow> \<not> now - windowStart r > ANALYZE_RATE_WINDOW \<Longrightarrow>
   count r \<ge> ANALYZE_RATE_MAX \<Longrightarrow> checkAnalyzeRateLimit now m ip = (False, m)"
  by (simp add: checkAnalyzeRateLimit_def)

lemma check_incr:
  "m ip = Some r \<Longrightarrow> \<not> now - windowStart r > ANALYZE_RATE_WINDOW \<Longrightarrow>
   count r < ANALYZE_RATE_MAX \<Longrightarrow>
   checkAnalyzeRateLimit now m ip = (True, m(ip \<mapsto> r\<lparr>count := count r + 1\<rparr>))"
  by (simp add: checkAnalyzeRateLimit_def)

lemma analyze_calls_Cons:
  "analyze_calls (t # ts) m ip =
     (fst (checkAnalyzeRateLimit t m ip) # fst (analyze_calls ts (snd (checkAnalyzeRateLimit t m ip)) ip),
      snd (analyze_calls ts (snd (checkAnalyzeRateLimit t m ip)) ip))"
  by (simp split: prod.splits)

text \<open>
  Inside one window the answers depend only on the count reached so far: the calls that
  still fit under the maximum are allowed, every later one is refused, and the record keeps
  its window start.
\<close>

lemma analyze_calls_in_window:
  "m ip = Some \<lparr>count = c, windowStart = t0\<rparr> \<Longrightarrow> c \<le> ANALYZE_RATE_MAX \<Longrightarrow>
   \<forall>t \<in> set ts. t - t0 \<le> ANALYZE_RATE_WINDOW \<Longrightarrow>
   fst (analyze_calls ts m ip) =
     replicate (min (length ts) (ANALYZE_RATE_MAX - c)) True @
     replicate (length ts - (ANALYZE_RATE_MAX - c)) False \<and>
   snd (analyze_calls ts m ip) ip =
     Some \<lparr>count = min ANALYZE_RATE_MAX (c + length ts), windowStart = t0\<rparr>"
proof (induction ts arbitrary: m c)
  case Nil
  then show ?case by simp
next
  case (Cons t ts)
  have inwin: "\<not> t - t0 > ANALYZE_RATE_WINDOW" using Cons.prems(3) by auto
  have rest: "\<forall>t \<in> set ts. t - t0 \<le> ANALYZE_RATE_WINDOW" using Cons.prems(3) by simp
  show ?case
  proof (cases "c < ANALYZE_RATE_MAX")
    case True
    let ?m' = "m(ip \<mapsto> \<lparr>count = c + 1, windowStart = t0\<rparr>)"
    have step: "checkAnalyzeRateLimit t m ip = (True, ?m')"
      using Cons.prems(1) inwin True by (simp add: checkAnalyzeRateLimit_def)
    have ih: "fst (analyze_calls ts ?m' ip) =
        replicate (min (length ts) (ANALYZE_RATE_MAX - (c + 1))) True @
        replicate (length ts - (ANALYZE_RATE_MAX - (c + 1))) False \<and>
      snd (analyze_calls ts ?m' ip) ip =
        Some \<lparr>count = min ANALYZE_RATE_MAX (c + 1 + length ts), windowStart = t0\<rparr>"
    proof (rule Cons.IH)
      show "?m' ip = Some \<lparr>count = c + 1, windowStart = t0\<rparr>" by simp
      show "c + 1 \<le> ANALYZE_RATE_MAX" using True by simp
      show "\<forall>t \<in> set ts. t - t0 \<le> ANALYZE_RATE_WINDOW" by (rule rest)
    qed
    obtain k where k: "ANALYZE_RATE_MAX - c = Suc k"
      using True by (metis Suc_diff_Suc diff_zero zero_less_diff)
    then have k': "ANALYZE_RATE_MAX - Suc c = k" by simp
    show ?thesis
      using ih step by (simp add: analyze_calls_Cons k k' del: analyze_calls.simps)
  next
    case False
    then have full: "c = ANALYZE_RATE_MAX" using Cons.prems(2) by simp
    have step: "checkAnalyzeRateLimit t m ip = (False, m)"
      using Cons.prems(1) inwin full by (simp add: checkAnalyzeRateLimit_def)
    have ih: "fst (analyze_calls ts m ip) =
        replicate (min (length ts) (ANALYZE_RATE_MAX - c)) True @
        replicate (length ts - (ANALYZE_RATE_MAX - c)) False \<and>
      snd (analyze_calls ts m ip) ip =
        Some \<lparr>count = min ANALYZE_RATE_MAX (c + length ts), windowStart = t0\<rparr>"
      by (rule Cons.IH) (use Cons.prems rest in simp_all)
    show ?thesis
      using ih step by (simp add: analyze_calls_Cons full del: analyze_calls.simps)
  qed
qed

lemma analyze_calls_from_fresh:
  assumes fresh: "m ip = None \<or> (\<exists>r. m ip = Some r \<and> t0 - windowStart r > ANALYZE_RATE_WINDOW)"
    and inwin: "\<forall>t \<in> set ts. t - t0 \<le> ANALYZE_RATE_WINDOW"
  shows "fst (analyze_calls (t0 # ts) m ip) =
           replicate (min (Suc (length ts)) ANALYZE_RATE_MAX) True @
           replicate (Suc (length ts) - ANALYZE_RATE_MAX) False"
    and "snd (analyze_calls (t0 # ts) m ip) ip =
           Some \<lparr>count = min ANALYZE_RATE_MAX (Suc (length ts)), windowStart = t0\<rparr>"
proof -
  let ?m' = "m(ip \<mapsto> \<lparr>count = 1, windowStart = t0\<rparr>)"
  have step: "checkAnalyzeRateLimit t0 m ip = (True, ?m')"
    by (rule check_fresh) (rule fresh)
  have run: "fst (analyze_calls ts ?m' ip) =
      replicate (min (length ts) (ANALYZE_RATE_MAX - 1)) True @
      replicate (length ts - (ANALYZE_RATE_MAX - 1)) False \<and>
    snd (analyze_calls ts ?m' ip) ip =
      Some \<lparr>count = min ANALYZE_RATE_MAX (1 + length ts), windowStart = t0\<rparr>"
  proof (rule analyze_calls_in_window)
    show "?m' ip = Some \<lparr>count = 1, windowStart = t0\<rparr>" by simp
    show "1 \<le> ANALYZE_RATE_MAX" by (simp add: ANALYZE_RATE_MAX_def)
    show "\<forall>t \<in> set ts. t - t0 \<le> ANALYZE_RATE_WINDOW" by (rule inwin)
  qed
  have nine: "ANALYZE_RATE_MAX - 1 = 9" "ANALYZE_RATE_MAX = Suc 9"
    by (simp_all add: ANALYZE_RATE_MAX_def)
  show "fst (analyze_calls (t0 # ts) m ip) =
           replicate (min (Suc (length ts)) ANALYZE_RATE_MAX) True @
           replicate (Suc (length ts) - ANALYZE_RATE_MAX) False"
    using run step by (simp add: analyze_calls_Cons nine del: analyze_calls.simps)
  show "snd (analyze_calls (t0 # ts) m ip) ip =
           Some \<lparr>count = min ANALYZE_RATE_MAX (Suc (length ts)), windowStart = t0\<rparr>"
    using run step by (simp add: analyze_calls_Cons del: analyze_calls.simps)
qed

section \<open>Properties of the login attempts map\<close>

lemma recordAttempt_keeps:
  "attempts k \<noteq> None \<Longrightarrow> recordAttempt now attempts ip k \<noteq> None"
  by (auto simp: recordAttempt_def split: option.splits)

lemma checkAnalyzeRateLimit_dom:
  "dom analyzeAttempts \<subseteq> dom (snd (checkAnalyzeRateLimit now analyzeAttempts ip))"
  by (auto simp: checkAnalyzeRateLimit_def split: option.splits)

lemma checkRateLimit_dom:
  "dom rateLimiter \<subseteq> dom (snd (checkRateLimit now rateLimiter ip))"
  by (auto simp: checkRateLimit_def split: option.splits)

lemma auth_POST_keeps:
  assumes "attempts k \<noteq> None"
    and "attempts_after (auth_POST env request clock rnd attempts) k = None"
  shows "k = getClientIP (login_headers request) \<and>
         login_response (auth_POST env request clock rnd attempts) = \<lparr>status = 200, body = Ok []\<rparr>"
proof -
  let ?ip = "getClientIP (login_headers request)"
  have kept: "recordAttempt (t_record clock) attempts ?ip k \<noteq> None"
    using assms(1) by (rule recordAttempt_keeps)
  show ?thesis
    using assms kept
    by (auto simp: auth_POST_def Let_def json_ok_def
        split: if_splits login_body.splits password_field.splits)
qed

section \<open>Properties of the middleware and the login page\<close>

text \<open>
  For a path that the middleware does not let through unexamined, a missing, empty or
  invalid session cookie leads to the redirect to \<^verbatim>\<open>/login\<close> with the path as \<^verbatim>\<open>from\<close>.
\<close>

lemma middleware_redirects_to_login:
  assumes "\<not> bypassed pathname"
    and "falsy session \<or> \<not> mw_verifySessionToken env (or_else session [])"
  shows "middleware env pathname session = Redirect ''/login'' [(''from'', pathname)]"
  using assms by (auto simp: middleware_def bypassed_def)

lemma middleware_lets_through:
  "bypassed pathname \<Longrightarrow> middleware env pathname session = Next"
  by (auto simp: middleware_def bypassed_def)

lemma LoginForm_from_double_slash:
  "LoginForm_from (Some ''//evil.com'') = ''/''"
  by (simp add: LoginForm_from_def or_else_def startsWith_def)

lemma LoginForm_from_shape:
  "startsWith (LoginForm_from param) ''/'' \<and> \<not> startsWith (LoginForm_from param) ''//''"
  by (simp add: LoginForm_from_def Let_def startsWith_def)

lemma LoginForm_from_rejects:
  "\<not> startsWith raw ''/'' \<or> startsWith raw ''//'' \<Longrightarrow> LoginForm_from (Some raw) = ''/''"
  by (auto simp: LoginForm_from_def Let_def or_else_def startsWith_def)

section \<open>Claims\<close>

text \<open>
  C1. Token round trip: whatever the configured password, a token minted by
  \<^verbatim>\<open>generateSessionToken\<close> from the 32 bytes of \<^verbatim>\<open>randomBytes(32)\<close> is accepted by
  \<^verbatim>\<open>verifySessionToken\<close> under the same password.
\<close>

theorem verify_generated_token:
  assumes "length rnd = 32"
  shows "verifySessionToken env (generateSessionToken env rnd)"
proof -
  let ?nonce = "hex rnd"
  let ?sig = "hmacSHA256 (getSessionSecret env) ?nonce"
  have parts: "split_on CHR ''.'' (generateSessionToken env rnd) = [?nonce, ?sig]"
    by (rule split_generated)
  have nonce: "?nonce \<noteq> []"
    using assms by (intro hex_nonempty) auto
  have sig: "?sig \<noteq> []"
    by (rule hmacSHA256_nonempty)
  show ?thesis
    by (simp add: verifySessionToken_def parts nonce sig Let_def timingSafeEqual_same)
qed

theorem verify_generated_token_witness:
  "length (replicate 32 (0::int)) = 32 \<and>
   verifySessionToken
     \<lparr>APP_PASSWORD = Some ''pw'', OPENAI_API_KEY = None, BUNNY_STORAGE_ZONE = None,
      BUNNY_ACCESS_KEY = None, BUNNY_CDN_HOST = None\<rparr>
     (generateSessionToken
        \<lparr>APP_PASSWORD = Some ''pw'', OPENAI_API_KEY = None, BUNNY_STORAGE_ZONE = None,
         BUNNY_ACCESS_KEY = None, BUNNY_CDN_HOST = None\<rparr>
        (replicate 32 0))"
proof -
  have len: "length (replicate 32 (0::int)) = 32" by simp
  from verify_generated_token [OF len] len show ?thesis by simp
qed

text \<open>
  C2. Rate limiter, one call: when the key has no record or its window has expired
  (\<^verbatim>\<open>now - windowStart > ANALYZE_RATE_WINDOW\<close>) the call stores a fresh record with count 1
  and returns true; when the record is current and its count has reached
  \<^verbatim>\<open>ANALYZE_RATE_MAX\<close> the call returns false and leaves the map as it was; otherwise it
  adds one to the count and returns true. Consequently, for calls that start a window at
  \<open>t0\<close> and continue at readings within that window, exactly the first
  \<^verbatim>\<open>ANALYZE_RATE_MAX\<close> return true and every later one returns false, the eleventh in
  particular; and a call made after the window has elapsed returns true again.
\<close>

theorem checkAnalyzeRateLimit_semantics:
  "(m ip = None \<or> (\<exists>r. m ip = Some r \<and> now - windowStart r > ANALYZE_RATE_WINDOW) \<longrightarrow>
      checkAnalyzeRateLimit now m ip = (True, m(ip \<mapsto> \<lparr>count = 1, windowStart = now\<rparr>))) \<and>
   (\<forall>r. m ip = Some r \<and> now - windowStart r \<le> ANALYZE_RATE_WINDOW \<and>
        count r \<ge> ANALYZE_RATE_MAX \<longrightarrow>
      checkAnalyzeRateLimit now m ip = (False, m)) \<and>
   (\<forall>r. m ip = Some r \<and> now - windowStart r \<le> ANALYZE_RATE_WINDOW \<and>
        count r < ANALYZE_RATE_MAX \<longrightarrow>
      checkAnalyzeRateLimit now m ip = (True, m(ip \<mapsto> r\<lparr>count := count r + 1\<rparr>))) \<and>
   ((m ip = None \<or> (\<exists>r. m ip = Some r \<and> now - windowStart r > ANALYZE_RATE_WINDOW)) \<and>
    (\<forall>t \<in> set ts. t - now \<le> ANALYZE_RATE_WINDOW) \<longrightarrow>
      fst (analyze_calls (now # ts) m ip) =
        replicate (min (Suc (length ts)) ANALYZE_RATE_MAX) True @
        replicate (Suc (length ts) - ANALYZE_RATE_MAX) False \<and>
      (length ts = ANALYZE_RATE_MAX \<longrightarrow>
        fst (analyze_calls (now # ts) m ip) = replicate ANALYZE_RATE_MAX True @ [False]) \<and>
      (\<forall>later. later - now > ANALYZE_RATE_WINDOW \<longrightarrow>
        fst (checkAnalyzeRateLimit later (snd (analyze_calls (now # ts) m ip)) ip)))"
proof (intro conjI impI allI)
  assume "m ip = None \<or> (\<exists>r. m ip = Some r \<and> now - windowStart r > ANALYZE_RATE_WINDOW)"
  then show "checkAnalyzeRateLimit now m ip = (True, m(ip \<mapsto> \<lparr>count = 1, windowStart = now\<rparr>))"
    by (rule check_fresh)
next
  fix r
  assume "m ip = Some r \<and> now - windowStart r \<le> ANALYZE_RATE_WINDOW \<and> count r \<ge> ANALYZE_RATE_MAX"
  then show "checkAnalyzeRateLimit now m ip = (False, m)"
    by (simp add: checkAnalyzeRateLimit_def)
next
  fix r
  assume "m ip = Some r \<and> now - windowStart r \<le> ANALYZE_RATE_WINDOW \<and> count r < ANALYZE_RATE_MAX"
  then show "checkAnalyzeRateLimit now m ip = (True, m(ip \<mapsto> r\<lparr>count := count r + 1\<rparr>))"
    by (simp add: checkAnalyzeRateLimit_def)
next
  assume a: "(m ip = None \<or> (\<exists>r. m ip = Some r \<and> now - windowStart r > ANALYZE_RATE_WINDOW)) \<and>
    (\<forall>t \<in> set ts. t - now \<le> ANALYZE_RATE_WINDOW)"
  show "fst (analyze_calls (now # ts) m ip) =
        replicate (min (Suc (length ts)) ANALYZE_RATE_MAX) True @
        replicate (Suc (length ts) - ANALYZE_RATE_MAX) False"
    using a by (intro analyze_calls_from_fresh(1)) simp_all
next
  assume a: "(m ip = None \<or> (\<exists>r. m ip = Some r \<and> now - windowStart r > ANALYZE_RATE_WINDOW)) \<and>
    (\<forall>t \<in> set ts. t - now \<le> ANALYZE_RATE_WINDOW)"
  assume len: "length ts = ANALYZE_RATE_MAX"
  have "fst (analyze_calls (now # ts) m ip) =
        replicate (min (Suc (length ts)) ANALYZE_RATE_MAX) True @
        replicate (Suc (length ts) - ANALYZE_RATE_MAX) False"
    using a by (intro analyze_calls_from_fresh(1)) simp_all
  then show "fst (analyze_calls (now # ts) m ip) = replicate ANALYZE_RATE_MAX True @ [False]"
    by (simp add: len)
next
  fix later
  assume a: "(m ip = None \<or> (\<exists>r. m ip = Some r \<and> now - windowStart r > ANALYZE_RATE_WINDOW)) \<and>
    (\<forall>t \<in> set ts. t - now \<le> ANALYZE_RATE_WINDOW)"
  assume late: "later - now > ANALYZE_RATE_WINDOW"
  have "snd (analyze_calls (now # ts) m ip) ip =
           Some \<lparr>count = min ANALYZE_RATE_MAX (Suc (length ts)), windowStart = now\<rparr>"
    using a by (intro analyze_calls_from_fresh(2)) simp_all
  then show "fst (checkAnalyzeRateLimit later (snd (analyze_calls (now # ts) m ip)) ip)"
    using late by (simp add: checkAnalyzeRateLimit_def)
qed


theorem checkAnalyzeRateLimit_semantics_witness:
  "checkAnalyzeRateLimit 5 Map.empty ''203.0.113.7'' =
     (True, [''203.0.113.7'' \<mapsto> \<lparr>count = 1, windowStart = 5\<rparr>]) \<and>
   checkAnalyzeRateLimit 9 [''203.0.113.7'' \<mapsto> \<lparr>count = 10, windowStart = 5\<rparr>] ''203.0.113.7'' =
     (False, [''203.0.113.7'' \<mapsto> \<lparr>count = 10, windowStart = 5\<rparr>]) \<and>
   checkAnalyzeRateLimit 9 [''203.0.113.7'' \<mapsto> \<lparr>count = 3, windowStart = 5\<rparr>] ''203.0.113.7'' =
     (True, [''203.0.113.7'' \<mapsto> \<lparr>count = 4, windowStart = 5\<rparr>]) \<and>
   fst (analyze_calls [5, 6, 7, 8, 9, 10, 11, 12, 13, 14, 60005] Map.empty ''203.0.113.7'') =
     [True, True, True, True, True, True, True, True, True, True, False] \<and>
   fst (checkAnalyzeRateLimit 60006
          (snd (analyze_calls [5, 6, 7, 8, 9, 10, 11, 12, 13, 14, 60005] Map.empty ''203.0.113.7''))
          ''203.0.113.7'')"
proof -
  let ?ip = "''203.0.113.7''"
  let ?ts = "[6, 7, 8, 9, 10, 11, 12, 13, 14, 60005] :: int list"
  let ?full = "[?ip \<mapsto> \<lparr>count = 10, windowStart = 5\<rparr>]"
  let ?part = "[?ip \<mapsto> \<lparr>count = 3, windowStart = 5\<rparr>]"
  have ten: "replicate 10 True = [True, True, True, True, True, True, True, True, True, True]"
    by (simp add: numeral_eq_Suc)
  have fresh: "checkAnalyzeRateLimit 5 Map.empty ?ip = (True, [?ip \<mapsto> \<lparr>count = 1, windowStart = 5\<rparr>])"
    using checkAnalyzeRateLimit_semantics [of Map.empty ?ip 5 ?ts] by simp
  have run: "fst (analyze_calls (5 # ?ts) Map.empty ?ip) =
      [True, True, True, True, True, True, True, True, True, True, False]"
    using checkAnalyzeRateLimit_semantics [of Map.empty ?ip 5 ?ts]
    by (simp add: ANALYZE_RATE_MAX_def ANALYZE_RATE_WINDOW_def ten del: analyze_calls.simps)
  have again: "fst (checkAnalyzeRateLimit 60006 (snd (analyze_calls (5 # ?ts) Map.empty ?ip)) ?ip)"
    using checkAnalyzeRateLimit_semantics [of Map.empty ?ip 5 ?ts]
    by (simp add: ANALYZE_RATE_MAX_def ANALYZE_RATE_WINDOW_def del: analyze_calls.simps)
  have full: "checkAnalyzeRateLimit 9 ?full ?ip = (False, ?full)"
    using checkAnalyzeRateLimit_semantics [of ?full ?ip 9 "[]"]
    by (simp add: ANALYZE_RATE_MAX_def ANALYZE_RATE_WINDOW_def)
  have part: "checkAnalyzeRateLimit 9 ?part ?ip = (True, [?ip \<mapsto> \<lparr>count = 4, windowStart = 5\<rparr>])"
    using checkAnalyzeRateLimit_semantics [of ?part ?ip 9 "[]"]
    by (simp add: ANALYZE_RATE_MAX_def ANALYZE_RATE_WINDOW_def)
  show ?thesis
    using fresh run again full part by simp
qed
text \<open>
  C3. The middleware part holds (\<open>middleware_redirects_to_login\<close>), and the login page maps
  \<^verbatim>\<open>//evil.com\<close> to \<^verbatim>\<open>/\<close>. The login page's test lets a target through whose second
  character is a backslash: the value of \<^verbatim>\<open>from\<close> made of a slash, a backslash and
  \<^verbatim>\<open>evil.com\<close>, which is not a same-origin relative path, is kept as the target of the
  navigation.
\<close>

theorem LoginForm_from_backslash:
  "\<not> spec_same_origin_relative_path (''/'' @ [CHR 0x5C] @ ''evil.com'') \<and>
   LoginForm_from (Some (''/'' @ [CHR 0x5C] @ ''evil.com'')) = ''/'' @ [CHR 0x5C] @ ''evil.com''"
  by (simp add: spec_same_origin_relative_path_def LoginForm_from_def or_else_def startsWith_def)

text \<open>
  C4, as stated: the delay is \<open>min (1000 * 2 ^ (count - 1)) 8000\<close> for the current count of
  failed attempts. With one failed attempt in the window the formula gives 1000, and
  \<^verbatim>\<open>getDelay\<close> returns 0.
\<close>

theorem getDelay_formula_counterexample:
  "getAttemptCount 1000 [''203.0.113.7'' \<mapsto> \<lparr>attemptCount = 1, firstAttempt = 0\<rparr>] ''203.0.113.7'' = 1 \<and>
   getDelay 1000 [''203.0.113.7'' \<mapsto> \<lparr>attemptCount = 1, firstAttempt = 0\<rparr>] ''203.0.113.7'' \<noteq>
     min (1000 * 2 ^ (1 - 1)) 8000"
  by (simp add: getDelay_def getAttemptCount_def RATE_LIMIT_WINDOW_def)

text \<open>
  C4, amended: \<^verbatim>\<open>getDelay\<close> returns 0 while the count of failed attempts in the current
  window is 0 or 1 (no record, an expired record, or a record with count at most 1), and
  \<open>min (1000 * 2 ^ (count - 1)) 8000\<close> from the second failed attempt on: 2000, 4000 and
  then 8000 milliseconds.
\<close>

theorem getDelay_formula:
  "(attempts ip = None \<or>
    (\<exists>r. attempts ip = Some r \<and>
         (now - firstAttempt r > RATE_LIMIT_WINDOW \<or> attemptCount r \<le> 1)) \<longrightarrow>
      getDelay now attempts ip = 0) \<and>
   (\<forall>r. attempts ip = Some r \<and> now - firstAttempt r \<le> RATE_LIMIT_WINDOW \<and>
        2 \<le> attemptCount r \<longrightarrow>
      getAttemptCount now attempts ip = attemptCount r \<and>
      getDelay now attempts ip = min (1000 * 2 ^ (attemptCount r - 1)) 8000 \<and>
      (attemptCount r = 2 \<longrightarrow> getDelay now attempts ip = 2000) \<and>
      (attemptCount r = 3 \<longrightarrow> getDelay now attempts ip = 4000) \<and>
      (4 \<le> attemptCount r \<longrightarrow> getDelay now attempts ip = 8000))"
proof (intro conjI impI allI)
  assume "attempts ip = None \<or>
    (\<exists>r. attempts ip = Some r \<and>
         (now - firstAttempt r > RATE_LIMIT_WINDOW \<or> attemptCount r \<le> 1))"
  then show "getDelay now attempts ip = 0"
    by (auto simp: getDelay_def getAttemptCount_def)
next
  fix r
  assume a: "attempts ip = Some r \<and> now - firstAttempt r \<le> RATE_LIMIT_WINDOW \<and> 2 \<le> attemptCount r"
  then show cnt: "getAttemptCount now attempts ip = attemptCount r"
    by (simp add: getAttemptCount_def)
  show formula: "getDelay now attempts ip = min (1000 * 2 ^ (attemptCount r - 1)) 8000"
    using a by (simp add: getDelay_def getAttemptCount_def)
  show "getDelay now attempts ip = 2000" if "attemptCount r = 2"
    using formula that by simp
  show "getDelay now attempts ip = 4000" if "attemptCount r = 3"
    using formula that by simp
  show "getDelay now attempts ip = 8000" if "4 \<le> attemptCount r"
  proof -
    have "(2::int) ^ 3 \<le> 2 ^ (attemptCount r - 1)"
      by (rule power_increasing) (use that in simp_all)
    then show ?thesis using formula by simp
  qed
qed

theorem getDelay_formula_witness:
  "getDelay 1000 Map.empty ''203.0.113.7'' = 0 \<and>
   getDelay 1000 [''203.0.113.7'' \<mapsto> \<lparr>attemptCount = 3, firstAttempt = 0\<rparr>] ''203.0.113.7'' = 4000"
proof -
  have none: "getDelay 1000 Map.empty ''203.0.113.7'' = 0"
    using getDelay_formula [of Map.empty "''203.0.113.7''" 1000] by simp
  have three: "getDelay 1000 [''203.0.113.7'' \<mapsto> \<lparr>attemptCount = 3, firstAttempt = 0\<rparr>] ''203.0.113.7'' = 4000"
    using getDelay_formula
      [of "[''203.0.113.7'' \<mapsto> \<lparr>attemptCount = 3, firstAttempt = 0\<rparr>]" "''203.0.113.7''" 1000]
    by (simp add: RATE_LIMIT_WINDOW_def)
  show ?thesis using none three by simp
qed

text \<open>
  C5. \<^verbatim>\<open>verifySessionToken\<close> of the login route compares the two signatures after
  \<^verbatim>\<open>Buffer.from(..., "hex")\<close>, which reads upper-case digits as well. The token below
  splits into exactly two non-empty parts, its signature part is not the recomputed
  signature, and the login route's verifier accepts it; the middleware's verifier, which
  compares the strings, refuses it.
\<close>

theorem verify_accepts_other_signature:
  "split_on CHR ''.''
     ''0000000000000000000000000000000000000000000000000000000000000000.68B54B77E04D0807AF99174252C06FB6CA5D8C44EBB9942BF6C49787406EEB8B'' =
   [''0000000000000000000000000000000000000000000000000000000000000000'',
    ''68B54B77E04D0807AF99174252C06FB6CA5D8C44EBB9942BF6C49787406EEB8B''] \<and>
   ''68B54B77E04D0807AF99174252C06FB6CA5D8C44EBB9942BF6C49787406EEB8B'' \<noteq>
     hmacSHA256 (getSessionSecret \<lparr>APP_PASSWORD = Some ''pw'', OPENAI_API_KEY = None, BUNNY_STORAGE_ZONE = None,
      BUNNY_ACCESS_KEY = None, BUNNY_CDN_HOST = None\<rparr>)
       ''0000000000000000000000000000000000000000000000000000000000000000'' \<and>
   verifySessionToken \<lparr>APP_PASSWORD = Some ''pw'', OPENAI_API_KEY = None, BUNNY_STORAGE_ZONE = None,
      BUNNY_ACCESS_KEY = None, BUNNY_CDN_HOST = None\<rparr>
     ''0000000000000000000000000000000000000000000000000000000000000000.68B54B77E04D0807AF99174252C06FB6CA5D8C44EBB9942BF6C49787406EEB8B'' \<and>
   \<not> mw_verifySessionToken \<lparr>APP_PASSWORD = Some ''pw'', OPENAI_API_KEY = None, BUNNY_STORAGE_ZONE = None,
      BUNNY_ACCESS_KEY = None, BUNNY_CDN_HOST = None\<rparr>
     ''0000000000000000000000000000000000000000000000000000000000000000.68B54B77E04D0807AF99174252C06FB6CA5D8C44EBB9942BF6C49787406EEB8B''"
proof -
  let ?env = "\<lparr>APP_PASSWORD = Some ''pw'', OPENAI_API_KEY = None, BUNNY_STORAGE_ZONE = None,
      BUNNY_ACCESS_KEY = None, BUNNY_CDN_HOST = None\<rparr>"
  have expected: "hmacSHA256 (getSessionSecret ?env)
       ''0000000000000000000000000000000000000000000000000000000000000000'' =
     ''68b54b77e04d0807af99174252c06fb6ca5d8c44ebb9942bf6c49787406eeb8b''"
    by (simp only: secret_pw signature_pw_zero)
  have differs: "''68B54B77E04D0807AF99174252C06FB6CA5D8C44EBB9942BF6C49787406EEB8B'' \<noteq>
     hmacSHA256 (getSessionSecret ?env)
       ''0000000000000000000000000000000000000000000000000000000000000000''"
    by (simp only: expected) simp
  have accepted: "verifySessionToken ?env
     ''0000000000000000000000000000000000000000000000000000000000000000.68B54B77E04D0807AF99174252C06FB6CA5D8C44EBB9942BF6C49787406EEB8B''"
    unfolding verifySessionToken_def split_upper
    by (simp add: expected decode_upper timingSafeEqual_def Let_def del: Buffer_from_hex.simps)
  have refused: "\<not> mw_verifySessionToken ?env
     ''0000000000000000000000000000000000000000000000000000000000000000.68B54B77E04D0807AF99174252C06FB6CA5D8C44EBB9942BF6C49787406EEB8B''"
    unfolding mw_verifySessionToken_def split_upper
    by (simp add: signature_pw_zero Let_def)
  show ?thesis
    using differs accepted refused by (simp only: split_upper simp_thms)
qed

text \<open>
  C6. Changing one character of the signature half of a minted token: the token minted
  under the password \<^verbatim>\<open>pw\<close> from 32 zero bytes has the letter \<^verbatim>\<open>b\<close> as third digit of
  its signature; with \<^verbatim>\<open>B\<close> in its place the login route's \<^verbatim>\<open>verifySessionToken\<close> still
  accepts the token.
\<close>

theorem verify_accepts_mutated_signature:
  "generateSessionToken \<lparr>APP_PASSWORD = Some ''pw'', OPENAI_API_KEY = None, BUNNY_STORAGE_ZONE = None,
      BUNNY_ACCESS_KEY = None, BUNNY_CDN_HOST = None\<rparr> (replicate 32 0) =
     ''0000000000000000000000000000000000000000000000000000000000000000.68b54b77e04d0807af99174252c06fb6ca5d8c44ebb9942bf6c49787406eeb8b'' \<and>
   (''0000000000000000000000000000000000000000000000000000000000000000.68b54b77e04d0807af99174252c06fb6ca5d8c44ebb9942bf6c49787406eeb8b'')
     [67 := CHR ''B''] =
     ''0000000000000000000000000000000000000000000000000000000000000000.68B54b77e04d0807af99174252c06fb6ca5d8c44ebb9942bf6c49787406eeb8b'' \<and>
   verifySessionToken \<lparr>APP_PASSWORD = Some ''pw'', OPENAI_API_KEY = None, BUNNY_STORAGE_ZONE = None,
      BUNNY_ACCESS_KEY = None, BUNNY_CDN_HOST = None\<rparr>
     ''0000000000000000000000000000000000000000000000000000000000000000.68B54b77e04d0807af99174252c06fb6ca5d8c44ebb9942bf6c49787406eeb8b''"
proof -
  let ?env = "\<lparr>APP_PASSWORD = Some ''pw'', OPENAI_API_KEY = None, BUNNY_STORAGE_ZONE = None,
      BUNNY_ACCESS_KEY = None, BUNNY_CDN_HOST = None\<rparr>"
  have expected: "hmacSHA256 (getSessionSecret ?env)
       ''0000000000000000000000000000000000000000000000000000000000000000'' =
     ''68b54b77e04d0807af99174252c06fb6ca5d8c44ebb9942bf6c49787406eeb8b''"
    by (simp only: secret_pw signature_pw_zero)
  have minted: "generateSessionToken ?env (replicate 32 0) =
     ''0000000000000000000000000000000000000000000000000000000000000000.68b54b77e04d0807af99174252c06fb6ca5d8c44ebb9942bf6c49787406eeb8b''"
    by (simp add: generateSessionToken_def Let_def hex_zero_nonce expected)
  have mutated: "(''0000000000000000000000000000000000000000000000000000000000000000.68b54b77e04d0807af99174252c06fb6ca5d8c44ebb9942bf6c49787406eeb8b'')
     [67 := CHR ''B''] =
     ''0000000000000000000000000000000000000000000000000000000000000000.68B54b77e04d0807af99174252c06fb6ca5d8c44ebb9942bf6c49787406eeb8b''"
    by code_simp
  have accepted: "verifySessionToken ?env
     ''0000000000000000000000000000000000000000000000000000000000000000.68B54b77e04d0807af99174252c06fb6ca5d8c44ebb9942bf6c49787406eeb8b''"
    unfolding verifySessionToken_def split_one_upper
    by (simp add: expected decode_one_upper timingSafeEqual_def Let_def del: Buffer_from_hex.simps)
  show ?thesis
    using minted mutated accepted by (intro conjI)
qed

text \<open>
  C7. Without a configured password (\<^verbatim>\<open>APP_PASSWORD\<close> unset or empty) a \<^verbatim>\<open>POST\<close> to the login
  route answers with status 500 and the error \<^verbatim>\<open>Authentication not configured\<close>; it sets no
  session cookie, so no token is minted, whatever the request holds, and it leaves the
  attempts map alone.
\<close>

theorem auth_POST_not_configured:
  assumes "falsy (APP_PASSWORD env)"
  shows "auth_POST env request clock rnd attempts =
           \<lparr>login_response = \<lparr>status = 500, body = Err ''Authentication not configured''\<rparr>,
            attempts_after = attempts, cookie_set = None, slept = 0\<rparr>"
  using assms by (simp add: auth_POST_def json_error_def)

theorem auth_POST_not_configured_witness:
  "falsy (APP_PASSWORD
     \<lparr>APP_PASSWORD = None, OPENAI_API_KEY = None, BUNNY_STORAGE_ZONE = None,
      BUNNY_ACCESS_KEY = None, BUNNY_CDN_HOST = None\<rparr>) \<and>
   auth_POST
     \<lparr>APP_PASSWORD = None, OPENAI_API_KEY = None, BUNNY_STORAGE_ZONE = None,
      BUNNY_ACCESS_KEY = None, BUNNY_CDN_HOST = None\<rparr>
     \<lparr>login_headers = \<lparr>x_real_ip = Some ''203.0.113.7'', x_forwarded_for = None\<rparr>,
      login_body = Body (PwString ''fallback'')\<rparr>
     \<lparr>t_count = 0, t_lock = 0, t_record = 0, t_delay = 0\<rparr>
     (replicate 32 0) Map.empty =
   \<lparr>login_response = \<lparr>status = 500, body = Err ''Authentication not configured''\<rparr>,
    attempts_after = Map.empty, cookie_set = None, slept = 0\<rparr>"
proof -
  let ?env = "\<lparr>APP_PASSWORD = None, OPENAI_API_KEY = None, BUNNY_STORAGE_ZONE = None,
      BUNNY_ACCESS_KEY = None, BUNNY_CDN_HOST = None\<rparr>"
  have unset: "falsy (APP_PASSWORD ?env)" by (simp add: falsy_def)
  from auth_POST_not_configured [OF unset] unset show ?thesis by simp
qed

text \<open>
  C8, as stated: a rate-limit record, once created, is never removed. The login handler
  removes the record of the client's address when the password is right
  (\<^verbatim>\<open>attempts.delete(ip)\<close>): after two failed attempts from an address, a successful login
  from it leaves no record.
\<close>

theorem attempts_record_removed_counterexample:
  "[''203.0.113.7'' \<mapsto> \<lparr>attemptCount = 2, firstAttempt = 0\<rparr>] ''203.0.113.7'' \<noteq> None \<and>
   attempts_after
     (auth_POST
        \<lparr>APP_PASSWORD = Some ''pw'', OPENAI_API_KEY = None, BUNNY_STORAGE_ZONE = None,
         BUNNY_ACCESS_KEY = None, BUNNY_CDN_HOST = None\<rparr>
        \<lparr>login_headers = \<lparr>x_real_ip = Some ''203.0.113.7'', x_forwarded_for = None\<rparr>,
         login_body = Body (PwString ''pw'')\<rparr>
        \<lparr>t_count = 5000, t_lock = 5000, t_record = 5000, t_delay = 5000\<rparr>
        (replicate 32 0)
        [''203.0.113.7'' \<mapsto> \<lparr>attemptCount = 2, firstAttempt = 0\<rparr>])
     ''203.0.113.7'' = None"
  by (simp add: auth_POST_def getClientIP_def falsy_def or_else_def getAttemptCount_def
      RATE_LIMIT_WINDOW_def RATE_LIMIT_MAX_def verifyPassword_def timingSafeEqual_def Let_def)

text \<open>
  C8, amended: a record of the login attempts map is removed only by a successful login
  from the address it belongs to; every other request to the login route keeps every
  record, mutating or resetting at most the one of its own address. The rate-limit maps of
  the analysis and thumbnail routes never lose a record: their limiters and handlers only
  add, increment or reset.
\<close>

theorem rate_records_removed_only_by_login:
  "(attempts k \<noteq> None \<and>
    attempts_after (auth_POST env request clock rnd attempts) k = None \<longrightarrow>
      k = getClientIP (login_headers request) \<and>
      login_response (auth_POST env request clock rnd attempts) = \<lparr>status = 200, body = Ok []\<rparr>) \<and>
   dom analyzeAttempts \<subseteq> dom (snd (checkAnalyzeRateLimit now analyzeAttempts ip)) \<and>
   dom analyzeAttempts \<subseteq> dom (snd (analyze_POST env request' now world analyzeAttempts)) \<and>
   dom rateLimiter \<subseteq> dom (snd (checkRateLimit now rateLimiter ip)) \<and>
   dom rateLimiter \<subseteq> dom (snd (thumbnail_POST buildDallePrompt env request'' now world' rateLimiter))"
proof (intro conjI impI)
  assume "attempts k \<noteq> None \<and>
    attempts_after (auth_POST env request clock rnd attempts) k = None"
  then have "k = getClientIP (login_headers request) \<and>
      login_response (auth_POST env request clock rnd attempts) = \<lparr>status = 200, body = Ok []\<rparr>"
    by (intro auth_POST_keeps) simp_all
  then show "k = getClientIP (login_headers request)"
    and "login_response (auth_POST env request clock rnd attempts) = \<lparr>status = 200, body = Ok []\<rparr>"
    by simp_all
next
  show "dom analyzeAttempts \<subseteq> dom (snd (checkAnalyzeRateLimit now analyzeAttempts ip))"
    by (rule checkAnalyzeRateLimit_dom)
next
  show "dom analyzeAttempts \<subseteq> dom (snd (analyze_POST env request' now world analyzeAttempts))"
    using checkAnalyzeRateLimit_dom [of analyzeAttempts now "getClientIP (analyze_headers request')"]
    by (auto simp: analyze_POST_def Let_def split: prod.splits)
next
  show "dom rateLimiter \<subseteq> dom (snd (checkRateLimit now rateLimiter ip))"
    by (rule checkRateLimit_dom)
next
  show "dom rateLimiter \<subseteq> dom (snd (thumbnail_POST buildDallePrompt env request'' now world' rateLimiter))"
    using checkRateLimit_dom [of rateLimiter now "getClientIP (thumbnail_headers request'')"]
    by (auto simp: thumbnail_POST_def Let_def split: prod.splits)
qed

theorem rate_records_removed_only_by_login_witness:
  "login_response
     (auth_POST
        \<lparr>APP_PASSWORD = Some ''pw'', OPENAI_API_KEY = None, BUNNY_STORAGE_ZONE = None,
         BUNNY_ACCESS_KEY = None, BUNNY_CDN_HOST = None\<rparr>
        \<lparr>login_headers = \<lparr>x_real_ip = Some ''203.0.113.7'', x_forwarded_for = None\<rparr>,
         login_body = Body (PwString ''pw'')\<rparr>
        \<lparr>t_count = 5000, t_lock = 5000, t_record = 5000, t_delay = 5000\<rparr>
        (replicate 32 0)
        [''203.0.113.7'' \<mapsto> \<lparr>attemptCount = 2, firstAttempt = 0\<rparr>]) =
   \<lparr>status = 200, body = Ok []\<rparr>"
proof -
  let ?env = "\<lparr>APP_PASSWORD = Some ''pw'', OPENAI_API_KEY = None, BUNNY_STORAGE_ZONE = None,
         BUNNY_ACCESS_KEY = None, BUNNY_CDN_HOST = None\<rparr>"
  let ?request = "\<lparr>login_headers = \<lparr>x_real_ip = Some ''203.0.113.7'', x_forwarded_for = None\<rparr>,
         login_body = Body (PwString ''pw'')\<rparr>"
  let ?clock = "\<lparr>t_count = 5000, t_lock = 5000, t_record = 5000, t_delay = 5000\<rparr>"
  let ?attempts = "[''203.0.113.7'' \<mapsto> \<lparr>attemptCount = 2, firstAttempt = 0\<rparr>]"
  have before: "?attempts ''203.0.113.7'' \<noteq> None" by simp
  have after: "attempts_after (auth_POST ?env ?request ?clock (replicate 32 0) ?attempts)
      ''203.0.113.7'' = None"
    by (simp add: auth_POST_def getClientIP_def falsy_def or_else_def getAttemptCount_def
        RATE_LIMIT_WINDOW_def RATE_LIMIT_MAX_def verifyPassword_def timingSafeEqual_def Let_def)
  from rate_records_removed_only_by_login
    [where attempts = ?attempts and k = "''203.0.113.7''" and env = ?env
       and request = ?request and clock = ?clock and rnd = "replicate 32 0"]
    before after
  show ?thesis by blast
qed

text \<open>
  C9. In the thumbnail handler, for a request that is authenticated, within its rate limit
  and valid, once the prompt has been crafted, the image generated (a non-empty URL),
  downloaded and resized, a failure of the upload to the CDN (missing configuration, a
  \<^verbatim>\<open>PUT\<close> that throws or one that is not \<^verbatim>\<open>ok\<close>) does not fail the request: the answer has
  status 200, \<^verbatim>\<open>success: true\<close>, and its \<^verbatim>\<open>url\<close> is the URL that the image generator
  returned. Whether the optional headshot compositing worked makes no difference.
\<close>

theorem cdn_upload_failure_falls_back:
  assumes session: "\<not> falsy (thumbnail_session request)"
      "api_verifySessionToken env (or_else (thumbnail_session request) [])"
    and key: "\<not> falsy (OPENAI_API_KEY env)"
    and allowed: "fst (checkRateLimit now rateLimiter (getClientIP (thumbnail_headers request)))"
    and valid: "thumbnail_body request = Inr b" "concept b = JStr cpt" "cpt \<noteq> []"
      "channelId b = JStr cid" "cid \<noteq> []" "getChannel cid = Some chan"
    and crafted: "crafter world = Inr content"
    and generated: "generated world = Inr (Some imageUrl)" "imageUrl \<noteq> []"
    and downloaded: "download world = Inr (Some downloadedBytes)"
    and resized: "resized world = Inr resizedBuffer"
    and upload_fails: "\<And>imageBuffer. isl (uploadToBunnyCDN env world imageBuffer (filename world))"
  shows "fst (thumbnail_POST buildDallePrompt env request now world rateLimiter) =
     \<lparr>status = 200,
      body = Ok [(''url'', imageUrl),
                 (''prompt_used'',
                  or_else content
                    (buildDallePrompt cpt chan
                       (case style_guide b of JStr g \<Rightarrow> Some g | _ \<Rightarrow> None)
                       (case text_overlay b of JStr t \<Rightarrow> t | _ \<Rightarrow> [])
                       (truthy (headshot_url b)))),
                 (''text_overlay'', case text_overlay b of JStr t \<Rightarrow> t | _ \<Rightarrow> [])]\<rparr>"
proof -
  have fallback:
    "(case uploadToBunnyCDN env world imageBuffer (filename world) of
        Inl e \<Rightarrow> fb | Inr cdnUrl \<Rightarrow> cdnUrl) = fb" for imageBuffer fb
    using upload_fails [of imageBuffer] by (cases "uploadToBunnyCDN env world imageBuffer (filename world)") simp_all
  have url: "falsy (Some imageUrl) = False" "or_else (Some imageUrl) [] = imageUrl"
    using generated(2) by (simp_all add: falsy_def or_else_def)
  have handler: "thumbnail_try buildDallePrompt env request world =
     \<lparr>status = 200,
      body = Ok [(''url'', imageUrl),
                 (''prompt_used'',
                  or_else content
                    (buildDallePrompt cpt chan
                       (case style_guide b of JStr g \<Rightarrow> Some g | _ \<Rightarrow> None)
                       (case text_overlay b of JStr t \<Rightarrow> t | _ \<Rightarrow> [])
                       (truthy (headshot_url b)))),
                 (''text_overlay'', case text_overlay b of JStr t \<Rightarrow> t | _ \<Rightarrow> [])]\<rparr>"
    unfolding thumbnail_try_def
    by (simp add: valid crafted generated(1) downloaded resized url fallback Let_def json_ok_def)
  show ?thesis
    using session key allowed
    by (simp add: thumbnail_POST_def handler Let_def case_prod_beta)
qed

theorem cdn_upload_failure_falls_back_witness:
  "fst (thumbnail_POST (\<lambda>cpt chan style overlay headshot. ''Create a thumbnail: '' @ cpt)
     \<lparr>APP_PASSWORD = Some ''pw'', OPENAI_API_KEY = Some ''sk-test'',
      BUNNY_STORAGE_ZONE = Some ''zone'', BUNNY_ACCESS_KEY = Some ''key'',
      BUNNY_CDN_HOST = Some ''cdn.example''\<rparr>
     \<lparr>thumbnail_headers = \<lparr>x_real_ip = Some ''203.0.113.7'', x_forwarded_for = None\<rparr>,
      thumbnail_session = Some (generateSessionToken
        \<lparr>APP_PASSWORD = Some ''pw'', OPENAI_API_KEY = Some ''sk-test'',
         BUNNY_STORAGE_ZONE = Some ''zone'', BUNNY_ACCESS_KEY = Some ''key'',
         BUNNY_CDN_HOST = Some ''cdn.example''\<rparr> (replicate 32 0)),
      thumbnail_body = Inr \<lparr>concept = JStr ''a robot'', text_overlay = JStr ''WOW'',
        emotion = JUndefined, channelId = JStr ''techtony'', style_guide = JUndefined,
        headshot_url = JStr ''https://img.example/me.png'', video_title = JUndefined\<rparr>\<rparr>
     1000
     \<lparr>crafter = Inr (Some ''A robot, vivid''),
      generated = Inr (Some ''https://images.example/tmp.png''),
      download = Inr (Some [137, 80, 78, 71]),
      resized = Inr [137, 80],
      composited = Inl (OtherError ''Failed to download headshot''),
      filename = ''thumb-1000-abc123.png'',
      storage_put = Inr (False, ''500'')\<rparr>
     Map.empty) =
   \<lparr>status = 200,
    body = Ok [(''url'', ''https://images.example/tmp.png''),
               (''prompt_used'', ''A robot, vivid''),
               (''text_overlay'', ''WOW'')]\<rparr>"
proof -
  let ?env = "\<lparr>APP_PASSWORD = Some ''pw'', OPENAI_API_KEY = Some ''sk-test'',
      BUNNY_STORAGE_ZONE = Some ''zone'', BUNNY_ACCESS_KEY = Some ''key'',
      BUNNY_CDN_HOST = Some ''cdn.example''\<rparr>"
  let ?token = "generateSessionToken ?env (replicate 32 0)"
  let ?b = "\<lparr>concept = JStr ''a robot'', text_overlay = JStr ''WOW'',
        emotion = JUndefined, channelId = JStr ''techtony'', style_guide = JUndefined,
        headshot_url = JStr ''https://img.example/me.png'', video_title = JUndefined\<rparr>"
  let ?request = "\<lparr>thumbnail_headers = \<lparr>x_real_ip = Some ''203.0.113.7'', x_forwarded_for = None\<rparr>,
      thumbnail_session = Some ?token, thumbnail_body = Inr ?b\<rparr>"
  let ?world = "\<lparr>crafter = Inr (Some ''A robot, vivid''),
      generated = Inr (Some ''https://images.example/tmp.png''),
      download = Inr (Some [137, 80, 78, 71]),
      resized = Inr [137, 80],
      composited = Inl (OtherError ''Failed to download headshot''),
      filename = ''thumb-1000-abc123.png'',
      storage_put = Inr (False, ''500'')\<rparr>"
  let ?build = "\<lambda>(cpt :: string) (chan :: channel_ref) (style :: string option)
      (overlay :: string) (headshot :: bool). ''Create a thumbnail: '' @ cpt"
  have token: "?token \<noteq> []"
    by (simp add: generateSessionToken_def Let_def)
  have s1: "\<not> falsy (thumbnail_session ?request)"
    using token by (simp add: falsy_def)
  have s2: "api_verifySessionToken ?env (or_else (thumbnail_session ?request) [])"
    using token api_verify_generated [of "replicate 32 0" ?env] by (simp add: or_else_def)
  have k: "\<not> falsy (OPENAI_API_KEY ?env)"
    by (simp add: falsy_def)
  have a: "fst (checkRateLimit 1000 Map.empty (getClientIP (thumbnail_headers ?request)))"
    by (simp add: checkRateLimit_def)
  have v: "thumbnail_body ?request = Inr ?b" "concept ?b = JStr ''a robot''" "''a robot'' \<noteq> []"
    "channelId ?b = JStr ''techtony''" "''techtony'' \<noteq> []"
    "getChannel ''techtony'' = Some (Configured ''techtony'')"
    by (simp_all add: getChannel_def)
  have w: "crafter ?world = Inr (Some ''A robot, vivid'')"
    "generated ?world = Inr (Some ''https://images.example/tmp.png'')"
    "''https://images.example/tmp.png'' \<noteq> []"
    "download ?world = Inr (Some [137, 80, 78, 71])"
    "resized ?world = Inr [137, 80]"
    by simp_all
  have u: "isl (uploadToBunnyCDN ?env ?world imageBuffer (filename ?world))" for imageBuffer
    by (simp add: uploadToBunnyCDN_def Let_def)
  have "fst (thumbnail_POST ?build ?env ?request 1000 ?world Map.empty) =
     \<lparr>status = 200,
      body = Ok [(''url'', ''https://images.example/tmp.png''),
                 (''prompt_used'',
                  or_else (Some ''A robot, vivid'')
                    (?build ''a robot'' (Configured ''techtony'')
                       (case style_guide ?b of JStr g \<Rightarrow> Some g | _ \<Rightarrow> None)
                       (case text_overlay ?b of JStr t \<Rightarrow> t | _ \<Rightarrow> [])
                       (truthy (headshot_url ?b)))),
                 (''text_overlay'', case text_overlay ?b of JStr t \<Rightarrow> t | _ \<Rightarrow> [])]\<rparr>"
    by (rule cdn_upload_failure_falls_back [OF s1 s2 k a v w u])
  then show ?thesis by (simp add: or_else_def)
qed

text \<open>
  C10. A \<^verbatim>\<open>POST\<close> to the transcript-analysis route, and likewise to the thumbnail route,
  whose session cookie is missing, empty or not a valid token is answered with status 401
  before the rate limiter is consulted: the rate-limit map after the request is the map
  before it.
\<close>

theorem unauthenticated_leaves_rate_map:
  "(falsy (analyze_session request) \<or>
    \<not> api_verifySessionToken env (or_else (analyze_session request) []) \<longrightarrow>
      analyze_POST env request now world analyzeAttempts =
        (\<lparr>status = 401, body = Err ''Not authenticated''\<rparr>, analyzeAttempts)) \<and>
   (falsy (thumbnail_session request') \<or>
    \<not> api_verifySessionToken env (or_else (thumbnail_session request') []) \<longrightarrow>
      thumbnail_POST buildDallePrompt env request' now world' rateLimiter =
        (\<lparr>status = 401, body = Err ''Not authenticated''\<rparr>, rateLimiter))"
  by (simp add: analyze_POST_def thumbnail_POST_def json_error_def)

theorem unauthenticated_leaves_rate_map_witness:
  "analyze_POST
     \<lparr>APP_PASSWORD = Some ''pw'', OPENAI_API_KEY = Some ''sk-test'', BUNNY_STORAGE_ZONE = None,
      BUNNY_ACCESS_KEY = None, BUNNY_CDN_HOST = None\<rparr>
     \<lparr>analyze_headers = \<lparr>x_real_ip = Some ''203.0.113.7'', x_forwarded_for = None\<rparr>,
      analyze_session = None,
      analyze_body = Inr \<lparr>transcript = JStr ''hello'', channel = JStr ''techtony'',
                            visual_context = JUndefined, video_duration = JUndefined\<rparr>\<rparr>
     1000
     \<lparr>completion = Inr (Some ''{}''), parsed = Parsed []\<rparr>
     [''203.0.113.7'' \<mapsto> \<lparr>count = 3, windowStart = 0\<rparr>] =
   (\<lparr>status = 401, body = Err ''Not authenticated''\<rparr>,
    [''203.0.113.7'' \<mapsto> \<lparr>count = 3, windowStart = 0\<rparr>]) \<and>
   analyze_POST
     \<lparr>APP_PASSWORD = Some ''pw'', OPENAI_API_KEY = Some ''sk-test'', BUNNY_STORAGE_ZONE = None,
      BUNNY_ACCESS_KEY = None, BUNNY_CDN_HOST = None\<rparr>
     \<lparr>analyze_headers = \<lparr>x_real_ip = Some ''203.0.113.7'', x_forwarded_for = None\<rparr>,
      analyze_session = Some ''not-a-token'',
      analyze_body = Inr \<lparr>transcript = JStr ''hello'', channel = JStr ''techtony'',
                            visual_context = JUndefined, video_duration = JUndefined\<rparr>\<rparr>
     1000
     \<lparr>completion = Inr (Some ''{}''), parsed = Parsed []\<rparr>
     Map.empty =
   (\<lparr>status = 401, body = Err ''Not authenticated''\<rparr>, Map.empty)"
proof -
  let ?env = "\<lparr>APP_PASSWORD = Some ''pw'', OPENAI_API_KEY = Some ''sk-test'',
      BUNNY_STORAGE_ZONE = None, BUNNY_ACCESS_KEY = None, BUNNY_CDN_HOST = None\<rparr>"
  let ?body = "Inr \<lparr>transcript = JStr ''hello'', channel = JStr ''techtony'',
      visual_context = JUndefined, video_duration = JUndefined\<rparr> :: exn + analyze_body"
  let ?headers = "\<lparr>x_real_ip = Some ''203.0.113.7'', x_forwarded_for = None\<rparr>"
  let ?world = "\<lparr>completion = Inr (Some ''{}''), parsed = Parsed []\<rparr>"
  let ?none = "\<lparr>analyze_headers = ?headers, analyze_session = None, analyze_body = ?body\<rparr>"
  let ?bad = "\<lparr>analyze_headers = ?headers, analyze_session = Some ''not-a-token'',
      analyze_body = ?body\<rparr>"
  let ?m = "[''203.0.113.7'' \<mapsto> \<lparr>count = 3, windowStart = 0\<rparr>]"
  have missing: "falsy (analyze_session ?none)"
    by (simp add: falsy_def)
  have invalid: "\<not> api_verifySessionToken ?env (or_else (analyze_session ?bad) [])"
    by (simp add: api_verifySessionToken_def or_else_def Let_def)
  have first: "analyze_POST ?env ?none 1000 ?world ?m =
      (\<lparr>status = 401, body = Err ''Not authenticated''\<rparr>, ?m)"
    using unauthenticated_leaves_rate_map
      [where request = ?none and env = ?env and now = 1000 and world = ?world
         and analyzeAttempts = ?m]
      missing by blast
  have second: "analyze_POST ?env ?bad 1000 ?world Map.empty =
      (\<lparr>status = 401, body = Err ''Not authenticated''\<rparr>, Map.empty)"
    using unauthenticated_leaves_rate_map
      [where request = ?bad and env = ?env and now = 1000 and world = ?world
         and analyzeAttempts = Map.empty]
      invalid by blast
  show ?thesis using first second by (rule conjI)
qed

end
